theory Spec2Isabelle
  imports Complex_Main "HOL-Library.Log_Nat" "HOL-Library.AList" "HOL-Library.Multiset"
    "HOL-Library.Product_Lexorder"
begin

section \<open>Python numbers: unbounded integers and binary64 floats\<close>

text \<open>
  The scripts compute with Python \<^verbatim>\<open>int\<close> (unbounded) and \<^verbatim>\<open>float\<close> (IEEE 754
  binary64, round to nearest, ties to even).  A finite float is modelled by the rational
  number it denotes; the two zeros, the infinities and NaN are separate constructors.
  \<open>Finite 0\<close> is \<^verbatim>\<open>0.0\<close> and \<open>NegZero\<close> is \<^verbatim>\<open>-0.0\<close>.
\<close>

datatype pyfloat = Finite rat | NegZero | PosInf | NegInf | NaN

datatype pyval = IntV int | FloatV pyfloat

datatype py_error = OverflowError | ZeroDivisionError

text \<open>\<open>ilog2 q\<close> is \<open>\<lfloor>log\<^sub>2 q\<rfloor>\<close> for a positive rational \<open>q\<close>.\<close>

definition ilog2 :: "rat \<Rightarrow> int" where
  "ilog2 q =
     (if 1 \<le> q then bitlen \<lfloor>q\<rfloor> - 1
      else - bitlen (\<lceil>1 / q\<rceil> - 1))"

definition round_half_even :: "rat \<Rightarrow> int" where
  "round_half_even x =
     (let f = \<lfloor>x\<rfloor>; d = x - of_int f
      in if d < 1 / 2 then f else if 1 / 2 < d then f + 1 else if even f then f else f + 1)"

text \<open>
  The spacing of the binary64 numbers around \<open>q\<close>: 53 significant bits in the normal
  range, the fixed spacing \<open>2\<^sup>-\<^sup>1\<^sup>0\<^sup>7\<^sup>4\<close> below \<open>2\<^sup>-\<^sup>1\<^sup>0\<^sup>2\<^sup>2\<close>.
\<close>

definition quantum :: "rat \<Rightarrow> rat" where
  "quantum q = 2 powi (max (ilog2 \<bar>q\<bar>) (- 1022) - 52)"

definition signed_zero :: "bool \<Rightarrow> pyfloat" where
  "signed_zero neg = (if neg then NegZero else Finite 0)"

text \<open>
  Correct rounding of an exact value to binary64.  The flag is the sign of the result
  when the exact value is zero; a non-zero value that rounds to zero keeps its own sign,
  and a value that rounds to \<open>2\<^sup>1\<^sup>0\<^sup>2\<^sup>4\<close> or beyond becomes an infinity.
\<close>

definition to_double :: "bool \<Rightarrow> rat \<Rightarrow> pyfloat" where
  "to_double neg q =
     (if q = 0 then signed_zero neg
      else let r = of_int (round_half_even (q / quantum q)) * quantum q
           in if 2 ^ 1024 \<le> \<bar>r\<bar> then (if 0 < q then PosInf else NegInf)
              else if r = 0 then signed_zero (q < 0)
              else Finite r)"

definition signbit :: "pyfloat \<Rightarrow> bool" where
  "signbit x = (case x of Finite r \<Rightarrow> r < 0 | NegZero \<Rightarrow> True | NegInf \<Rightarrow> True | _ \<Rightarrow> False)"

definition is_zero :: "pyfloat \<Rightarrow> bool" where
  "is_zero x = (x = Finite 0 \<or> x = NegZero)"

definition fneg :: "pyfloat \<Rightarrow> pyfloat" where
  "fneg x = (case x of
       Finite r \<Rightarrow> (if r = 0 then NegZero else Finite (- r))
     | NegZero \<Rightarrow> Finite 0
     | PosInf \<Rightarrow> NegInf
     | NegInf \<Rightarrow> PosInf
     | NaN \<Rightarrow> NaN)"

text \<open>The exact value of a float that is neither an infinity nor NaN.\<close>

definition fval :: "pyfloat \<Rightarrow> rat" where
  "fval x = (case x of Finite r \<Rightarrow> r | _ \<Rightarrow> 0)"

definition is_inf :: "pyfloat \<Rightarrow> bool" where
  "is_inf x = (x = PosInf \<or> x = NegInf)"

definition signed_inf :: "bool \<Rightarrow> pyfloat" where
  "signed_inf neg = (if neg then NegInf else PosInf)"

definition fadd :: "pyfloat \<Rightarrow> pyfloat \<Rightarrow> pyfloat" where
  "fadd x y =
     (if x = NaN \<or> y = NaN then NaN
      else if is_inf x then (if is_inf y \<and> x \<noteq> y then NaN else x)
      else if is_inf y then y
      else to_double (signbit x \<and> signbit y) (fval x + fval y))"

definition fsub :: "pyfloat \<Rightarrow> pyfloat \<Rightarrow> pyfloat" where
  "fsub x y = fadd x (fneg y)"

definition fmul :: "pyfloat \<Rightarrow> pyfloat \<Rightarrow> pyfloat" where
  "fmul x y =
     (if x = NaN \<or> y = NaN then NaN
      else if is_inf x \<or> is_inf y then
        (if is_zero x \<or> is_zero y then NaN else signed_inf (signbit x \<noteq> signbit y))
      else to_double (signbit x \<noteq> signbit y) (fval x * fval y))"

text \<open>Float division; Python raises \<^verbatim>\<open>ZeroDivisionError\<close> for a zero divisor.\<close>

definition fdiv :: "pyfloat \<Rightarrow> pyfloat \<Rightarrow> py_error + pyfloat" where
  "fdiv x y =
     (if is_zero y then Inl ZeroDivisionError
      else if x = NaN \<or> y = NaN then Inr NaN
      else if is_inf x then
        (if is_inf y then Inr NaN else Inr (signed_inf (signbit x \<noteq> signbit y)))
      else if is_inf y then Inr (signed_zero (signbit x \<noteq> signbit y))
      else Inr (to_double (signbit x \<noteq> signbit y) (fval x / fval y)))"

subsection \<open>Arithmetic on Python values\<close>

text \<open>Exceptions are values: \<open>Inl\<close> carries the exception, \<open>Inr\<close> the result.\<close>

definition ebind :: "'e + 'a \<Rightarrow> ('a \<Rightarrow> 'e + 'b) \<Rightarrow> 'e + 'b" where
  "ebind m f = (case m of Inl e \<Rightarrow> Inl e | Inr a \<Rightarrow> f a)"

definition finite_or_overflow :: "pyfloat \<Rightarrow> py_error + pyfloat" where
  "finite_or_overflow x = (if is_inf x then Inl OverflowError else Inr x)"

text \<open>Conversion of an \<^verbatim>\<open>int\<close> operand to \<^verbatim>\<open>float\<close>: correctly rounded, or
  \<^verbatim>\<open>OverflowError\<close> when the integer is too large.\<close>

definition int_to_float :: "int \<Rightarrow> py_error + pyfloat" where
  "int_to_float i = finite_or_overflow (to_double False (of_int i))"

definition as_float :: "pyval \<Rightarrow> py_error + pyfloat" where
  "as_float v = (case v of IntV i \<Rightarrow> int_to_float i | FloatV x \<Rightarrow> Inr x)"

definition float_binop ::
  "(pyfloat \<Rightarrow> pyfloat \<Rightarrow> pyfloat) \<Rightarrow> pyval \<Rightarrow> pyval \<Rightarrow> py_error + pyval" where
  "float_binop f a b =
     ebind (as_float a) (\<lambda>x. ebind (as_float b) (\<lambda>y. Inr (FloatV (f x y))))"

definition py_add :: "pyval \<Rightarrow> pyval \<Rightarrow> py_error + pyval" where
  "py_add a b = (case (a, b) of
       (IntV i, IntV j) \<Rightarrow> Inr (IntV (i + j))
     | _ \<Rightarrow> float_binop fadd a b)"

definition py_sub :: "pyval \<Rightarrow> pyval \<Rightarrow> py_error + pyval" where
  "py_sub a b = (case (a, b) of
       (IntV i, IntV j) \<Rightarrow> Inr (IntV (i - j))
     | _ \<Rightarrow> float_binop fsub a b)"

definition py_mul :: "pyval \<Rightarrow> pyval \<Rightarrow> py_error + pyval" where
  "py_mul a b = (case (a, b) of
       (IntV i, IntV j) \<Rightarrow> Inr (IntV (i * j))
     | _ \<Rightarrow> float_binop fmul a b)"

text \<open>True division \<^verbatim>\<open>a / b\<close>.  On two integers the quotient is rounded once, from
  the exact rational.\<close>

definition int_truediv :: "int \<Rightarrow> int \<Rightarrow> py_error + pyval" where
  "int_truediv i j =
     (if j = 0 then Inl ZeroDivisionError
      else ebind (finite_or_overflow (to_double ((i < 0) \<noteq> (j < 0)) (of_int i / of_int j)))
             (\<lambda>x. Inr (FloatV x)))"

definition py_truediv :: "pyval \<Rightarrow> pyval \<Rightarrow> py_error + pyval" where
  "py_truediv a b = (case (a, b) of
       (IntV i, IntV j) \<Rightarrow> int_truediv i j
     | _ \<Rightarrow> ebind (as_float a) (\<lambda>x. ebind (as_float b) (\<lambda>y.
              ebind (fdiv x y) (\<lambda>z. Inr (FloatV z)))))"

text \<open>
  \<^verbatim>\<open>round(v, n)\<close> with \<open>n \<ge> 0\<close>.  An \<^verbatim>\<open>int\<close> is returned unchanged.  A finite
  float is rounded, ties to even, at \<open>n\<close> decimals of its exact value, and the decimal
  result is converted back to the nearest float; zeros, infinities and NaN round to
  themselves.
\<close>

definition py_round :: "pyval \<Rightarrow> nat \<Rightarrow> py_error + pyval" where
  "py_round v n = (case v of
       IntV i \<Rightarrow> Inr (IntV i)
     | FloatV (Finite r) \<Rightarrow>
         (if 323 < n then Inr (FloatV (Finite r))
          else ebind (finite_or_overflow
                 (to_double (r < 0) (of_int (round_half_even (r * 10 ^ n)) / 10 ^ n)))
                 (\<lambda>x. Inr (FloatV x)))
     | FloatV x \<Rightarrow> Inr (FloatV x))"

text \<open>
  Comparison.  Python compares an \<^verbatim>\<open>int\<close> with a \<^verbatim>\<open>float\<close> by exact value; every
  comparison with NaN is false.  \<open>ext_val\<close> places a value on the extended line.
\<close>

definition ext_val :: "pyval \<Rightarrow> (int \<times> rat) option" where
  "ext_val v = (case v of
       IntV i \<Rightarrow> Some (0, of_int i)
     | FloatV (Finite r) \<Rightarrow> Some (0, r)
     | FloatV NegZero \<Rightarrow> Some (0, 0)
     | FloatV PosInf \<Rightarrow> Some (1, 0)
     | FloatV NegInf \<Rightarrow> Some (- 1, 0)
     | FloatV NaN \<Rightarrow> None)"

definition py_lt :: "pyval \<Rightarrow> pyval \<Rightarrow> bool" where
  "py_lt a b = (case (ext_val a, ext_val b) of (Some x, Some y) \<Rightarrow> x < y | _ \<Rightarrow> False)"

definition py_le :: "pyval \<Rightarrow> pyval \<Rightarrow> bool" where
  "py_le a b = (case (ext_val a, ext_val b) of (Some x, Some y) \<Rightarrow> x \<le> y | _ \<Rightarrow> False)"

definition py_gt :: "pyval \<Rightarrow> pyval \<Rightarrow> bool" where
  "py_gt a b = py_lt b a"

text \<open>A float literal of the source text denotes the float nearest to the decimal.\<close>

definition float_lit :: "rat \<Rightarrow> pyval" where
  "float_lit q = FloatV (to_double False q)"

text \<open>
  The floats that the arithmetic produces: NaN, the infinities, and the correctly rounded
  values.  (A \<open>Finite r\<close> with an arbitrary rational \<open>r\<close> need not be a binary64 number;
  every float computed by the operations above is one.)
\<close>

inductive is_rounded :: "pyfloat \<Rightarrow> bool" where
  "is_rounded NaN"
| "is_rounded PosInf"
| "is_rounded NegInf"
| "is_rounded (to_double s q)"

section \<open>Team statistics (afcon\_analysis.py)\<close>

record TeamStats =
  name :: string
  group :: string
  fifa_rank :: int
  matches_played :: int
  wins :: int
  draws :: int
  losses :: int
  goals_for :: int
  goals_against :: int
  points :: int

definition goal_difference :: "TeamStats \<Rightarrow> int" where
  "goal_difference t = goals_for t - goals_against t"

text \<open>The three ratio properties return the \<^verbatim>\<open>int\<close> 0 when no match was played, and a
  float rounded to two decimals otherwise.\<close>

definition avg_goals_per_match :: "TeamStats \<Rightarrow> py_error + pyval" where
  "avg_goals_per_match t =
     (if matches_played t = 0 then Inr (IntV 0)
      else ebind (py_truediv (IntV (goals_for t)) (IntV (matches_played t)))
             (\<lambda>q. py_round q 2))"

definition win_percentage :: "TeamStats \<Rightarrow> py_error + pyval" where
  "win_percentage t =
     (if matches_played t = 0 then Inr (IntV 0)
      else ebind (py_truediv (IntV (wins t)) (IntV (matches_played t)))
             (\<lambda>q. ebind (py_mul q (IntV 100)) (\<lambda>p. py_round p 2)))"

definition defense_strength :: "TeamStats \<Rightarrow> py_error + pyval" where
  "defense_strength t =
     (if matches_played t = 0 then Inr (IntV 0)
      else ebind (py_truediv (IntV (goals_against t)) (IntV (matches_played t)))
             (\<lambda>q. py_round q 2))"

subsection \<open>The analyzer\<close>

text \<open>
  \<^verbatim>\<open>self.teams\<close> is a dictionary keyed by team name; dictionaries keep insertion order,
  and assigning to an existing key keeps its place.  It is an association list maintained
  by \<open>AList.update\<close>.  A match is a dictionary of strings.
\<close>

record AFCONAnalyzer =
  matches :: "(string \<times> string) list list"
  teams :: "(string \<times> TeamStats) list"
  tournament_date :: string

definition init :: AFCONAnalyzer where
  "init = \<lparr>matches = [], teams = [], tournament_date = ''December 24, 2025''\<rparr>"

definition add_team :: "AFCONAnalyzer \<Rightarrow> TeamStats \<Rightarrow> AFCONAnalyzer" where
  "add_team a team = a\<lparr>teams := AList.update (name team) team (teams a)\<rparr>"

definition add_match :: "AFCONAnalyzer \<Rightarrow> (string \<times> string) list \<Rightarrow> AFCONAnalyzer" where
  "add_match a match_info = a\<lparr>matches := matches a @ [match_info]\<rparr>"

definition get_team :: "AFCONAnalyzer \<Rightarrow> string \<Rightarrow> TeamStats option" where
  "get_team a n = map_of (teams a) n"

text \<open>
  The dictionary literal \<^verbatim>\<open>{k1: v1, k2: v2}\<close>: when the keys are equal there is one
  entry, holding the second value.
\<close>

definition dict2 :: "'k \<Rightarrow> 'v \<Rightarrow> 'k \<Rightarrow> 'v \<Rightarrow> ('k \<times> 'v) list" where
  "dict2 k1 v1 k2 v2 = AList.update k2 v2 [(k1, v1)]"

text \<open>
  The formatted string \<^verbatim>\<open>f"{v}suffix"\<close> is kept as the value and the suffix.  Python
  writes an \<^verbatim>\<open>int\<close> in decimal and a float with a decimal point, an exponent or as
  \<^verbatim>\<open>inf\<close>/\<^verbatim>\<open>nan\<close>, and different values are written differently: \<open>FStr (IntV 0) ''%''\<close>
  stands for \<^verbatim>\<open>0%\<close>, \<open>FStr (FloatV (Finite 100)) ''%''\<close> for \<^verbatim>\<open>100.0%\<close>.
\<close>

datatype fstr = FStr pyval string

text \<open>A returned dictionary is either the one with the single key \<^verbatim>\<open>"error"\<close> or the
  full result.\<close>

datatype 'a reply = Error string | Result 'a

record comparison =
  c_match_up :: string
  c_fifa_ranks :: "(string \<times> int) list"
  c_points :: "(string \<times> int) list"
  c_goal_difference :: "(string \<times> int) list"
  c_offensive_power :: "(string \<times> pyval) list"
  c_defensive_strength :: "(string \<times> fstr) list"
  c_win_percentage :: "(string \<times> fstr) list"
  c_recent_form :: "(string \<times> fstr) list"

definition compare_teams ::
  "AFCONAnalyzer \<Rightarrow> string \<Rightarrow> string \<Rightarrow> py_error + comparison reply" where
  "compare_teams a team1_name team2_name =
     (case (get_team a team1_name, get_team a team2_name) of
        (Some team1, Some team2) \<Rightarrow>
          ebind (avg_goals_per_match team1) (\<lambda>o1.
          ebind (avg_goals_per_match team2) (\<lambda>o2.
          ebind (defense_strength team1) (\<lambda>d1.
          ebind (defense_strength team2) (\<lambda>d2.
          ebind (win_percentage team1) (\<lambda>w1.
          ebind (win_percentage team2) (\<lambda>w2.
          Inr (Result \<lparr>
            c_match_up = team1_name @ '' vs '' @ team2_name,
            c_fifa_ranks = dict2 team1_name (fifa_rank team1) team2_name (fifa_rank team2),
            c_points = dict2 team1_name (points team1) team2_name (points team2),
            c_goal_difference =
              dict2 team1_name (goal_difference team1) team2_name (goal_difference team2),
            c_offensive_power = dict2 team1_name o1 team2_name o2,
            c_defensive_strength =
              dict2 team1_name (FStr d1 '' goals/match'') team2_name (FStr d2 '' goals/match''),
            c_win_percentage = dict2 team1_name (FStr w1 ''%'') team2_name (FStr w2 ''%''),
            c_recent_form =
              dict2 team1_name (FStr (IntV (matches_played team1)) '' matches played'')
                team2_name (FStr (IntV (matches_played team2)) '' matches played'')
          \<rparr>)))))))
      | _ \<Rightarrow> Inr (Error ''One or both teams not found''))"

subsection \<open>Group standings\<close>

record standing =
  s_position :: nat
  s_team :: string
  s_points :: int
  s_matches :: int
  s_wins :: int
  s_draws :: int
  s_losses :: int
  s_goals_for :: int
  s_goals_against :: int
  s_goal_difference :: int

text \<open>
  \<^verbatim>\<open>sorted(xs, key=k, reverse=True)\<close> is a stable sort: the list is reversed, sorted
  stably in ascending key order, and reversed again.  Keys are pairs, compared
  lexicographically.
\<close>

definition sorted_reverse :: "('a \<Rightarrow> 'k::linorder) \<Rightarrow> 'a list \<Rightarrow> 'a list" where
  "sorted_reverse k xs = rev (sort_key k (rev xs))"

definition standing_of :: "nat \<times> TeamStats \<Rightarrow> standing" where
  "standing_of p = (case p of (idx, team) \<Rightarrow>
     \<lparr>s_position = idx, s_team = name team, s_points = points team,
      s_matches = matches_played team, s_wins = wins team, s_draws = draws team,
      s_losses = losses team, s_goals_for = goals_for team,
      s_goals_against = goals_against team, s_goal_difference = goal_difference team\<rparr>)"

definition analyze_group :: "AFCONAnalyzer \<Rightarrow> string \<Rightarrow> standing list" where
  "analyze_group a g =
     (let group_teams = filter (\<lambda>team. group team = g) (map snd (teams a));
          sorted_teams = sorted_reverse (\<lambda>x. (points x, goal_difference x)) group_teams
      in map standing_of (List.enumerate 1 sorted_teams))"

subsection \<open>Prediction\<close>

text \<open>The score expression of \<^verbatim>\<open>predict_outcome\<close>, written once in the source for each
  team, evaluated left to right.\<close>

definition team_score :: "TeamStats \<Rightarrow> py_error + pyval" where
  "team_score team =
     ebind (py_mul (IntV (11 - fifa_rank team)) (float_lit (3 / 10))) (\<lambda>ranking.
     ebind (avg_goals_per_match team) (\<lambda>avg.
     ebind (py_mul avg (IntV 2)) (\<lambda>offensive.
     ebind (py_add ranking offensive) (\<lambda>acc.
     ebind (defense_strength team) (\<lambda>def.
     ebind (py_sub (IntV 2) def) (\<lambda>margin.
     ebind (py_mul margin (float_lit (3 / 2))) (\<lambda>defensive.
     py_add acc defensive)))))))"

text \<open>\<^verbatim>\<open>total_score\<close>, \<^verbatim>\<open>team1_win_prob\<close> and \<^verbatim>\<open>team2_win_prob\<close>.\<close>

definition total_of :: "pyval \<Rightarrow> pyval \<Rightarrow> py_error + pyval" where
  "total_of team1_score team2_score = py_add team1_score team2_score"

definition team1_win_prob :: "pyval \<Rightarrow> pyval \<Rightarrow> py_error + pyval" where
  "team1_win_prob team1_score total_score =
     (if py_gt total_score (IntV 0)
      then ebind (py_truediv team1_score total_score) (\<lambda>share. py_mul share (IntV 100))
      else Inr (IntV 50))"

definition team2_win_prob :: "pyval \<Rightarrow> py_error + pyval" where
  "team2_win_prob p1 = py_sub (IntV 100) p1"

record prediction =
  p_match :: string
  p_prediction :: "(string \<times> fstr) list"
  p_estimated_goals :: "(string \<times> pyval) list"

definition predict_outcome ::
  "AFCONAnalyzer \<Rightarrow> string \<Rightarrow> string \<Rightarrow> py_error + prediction reply" where
  "predict_outcome a team1_name team2_name =
     (case (get_team a team1_name, get_team a team2_name) of
        (Some team1, Some team2) \<Rightarrow>
          ebind (team_score team1) (\<lambda>team1_score.
          ebind (team_score team2) (\<lambda>team2_score.
          ebind (total_of team1_score team2_score) (\<lambda>total_score.
          ebind (team1_win_prob team1_score total_score) (\<lambda>p1.
          ebind (team2_win_prob p1) (\<lambda>p2.
          ebind (py_round p1 1) (\<lambda>r1.
          ebind (py_round p2 1) (\<lambda>r2.
          ebind (avg_goals_per_match team1) (\<lambda>avg1.
          ebind (py_round avg1 1) (\<lambda>g1.
          ebind (avg_goals_per_match team2) (\<lambda>avg2.
          ebind (py_round avg2 1) (\<lambda>g2.
          Inr (Result \<lparr>
            p_match = team1_name @ '' vs '' @ team2_name,
            p_prediction = dict2 team1_name (FStr r1 ''%'') team2_name (FStr r2 ''%''),
            p_estimated_goals = dict2 team1_name g1 team2_name g2
          \<rparr>))))))))))))
      | _ \<Rightarrow> Inr (Error ''One or both teams not found''))"

text \<open>
  The composite score in the words of the specification,
  \<open>(11 \<minus> rank) \<times> 0.3 + avg_goals \<times> 2 + (2 \<minus> defense_strength) \<times> 1.5\<close>, as a function of the
  rank and the two derived metrics, in Python arithmetic.
\<close>

definition spec_composite_score :: "int \<Rightarrow> pyval \<Rightarrow> pyval \<Rightarrow> py_error + pyval" where
  "spec_composite_score rank avg_goals defense =
     ebind (py_mul (IntV (11 - rank)) (float_lit (3 / 10))) (\<lambda>ranking.
     ebind (py_mul avg_goals (IntV 2)) (\<lambda>offensive.
     ebind (py_sub (IntV 2) defense) (\<lambda>margin.
     ebind (py_mul margin (float_lit (3 / 2))) (\<lambda>defensive.
     ebind (py_add ranking offensive) (\<lambda>acc. py_add acc defensive)))))"

section \<open>Trend classification (fuel\_price\_prediction.py)\<close>

datatype trend = UPWARD | DOWNWARD | STABLE

text \<open>
  The \<^verbatim>\<open>'trend'\<close> entry computed for each fuel.  Its only input is the slope returned by
  the regression routine of the numerical library, a binary64 number, so the slope is a
  parameter here.
\<close>

definition trend_of :: "pyfloat \<Rightarrow> trend" where
  "trend_of slope =
     (if py_gt (FloatV slope) (float_lit (1 / 100)) then UPWARD
      else if py_lt (FloatV slope) (FloatV (fneg (to_double False (1 / 100)))) then DOWNWARD
      else STABLE)"

subsection \<open>Regression and extrapolation\<close>

text \<open>
  Modelled from the spec: the mean of a series, used by the closed-form formulas of the
  regression routine \<^verbatim>\<open>scipy.stats.linregress\<close>, which belongs to the numerical library and
  is not part of the repository.
\<close>

definition mean :: "real list \<Rightarrow> real" where
  "mean xs = sum_list xs / of_nat (length xs)"

text \<open>
  Modelled from the spec: the sum of the products of the deviations from the means, the
  covariance of the specification up to the common factor, for the missing
  \<^verbatim>\<open>scipy.stats.linregress\<close>.
\<close>

definition co_deviation :: "real list \<Rightarrow> real list \<Rightarrow> real" where
  "co_deviation xs ys = sum_list (map2 (\<lambda>x y. (x - mean xs) * (y - mean ys)) xs ys)"

text \<open>
  Modelled from the spec: \<^verbatim>\<open>scipy.stats.linregress\<close>, which is missing from the sources.
  The specification gives the ordinary least-squares formulas: the slope is the ratio of
  covariance to variance, the intercept is \<open>mean y \<minus> slope \<times> mean x\<close>, and the correlation
  coefficient is the covariance over the root of the product of the variances.  The
  result is the triple \<open>(slope, intercept, r_value)\<close> in exact arithmetic.
\<close>

definition linregress :: "real list \<Rightarrow> real list \<Rightarrow> real \<times> real \<times> real" where
  "linregress xs ys =
     (let slope = co_deviation xs ys / co_deviation xs xs;
          intercept = mean ys - slope * mean xs;
          r_value = co_deviation xs ys / sqrt (co_deviation xs xs * co_deviation ys ys)
      in (slope, intercept, r_value))"

text \<open>The script's \<^verbatim>\<open>month_numbers = np.arange(1, 13)\<close> and
  \<^verbatim>\<open>future_months = np.array([13, 14, 15])\<close>.\<close>

definition month_numbers :: "int list" where
  "month_numbers = [1..12]"

definition future_months :: "int list" where
  "future_months = [13, 14, 15]"

text \<open>
  \<^verbatim>\<open>future_predictions = slope * future_months + intercept\<close>: elementwise binary64
  arithmetic, each month index converted to a float first.
\<close>

definition future_predictions :: "pyfloat \<Rightarrow> pyfloat \<Rightarrow> pyfloat list" where
  "future_predictions slope intercept =
     map (\<lambda>m. fadd (fmul slope (to_double False (of_int m))) intercept) future_months"

text \<open>The entry \<^verbatim>\<open>'r_squared': r_value**2\<close>, on the exact value of the fit.\<close>

definition r_squared :: "real \<Rightarrow> real" where
  "r_squared r_value = r_value\<^sup>2"

text \<open>The series of the specification's example, \<open>prices = 10 + 0.5 \<times> month\<close>.\<close>

definition linear_prices :: "real list" where
  "linear_prices = map (\<lambda>m. 10 + 1 / 2 * of_int m) month_numbers"

subsection \<open>The data of \<^verbatim>\<open>main\<close>\<close>

definition ivory_coast :: TeamStats where
  "ivory_coast = \<lparr>name = ''Ivory Coast'', group = ''A'', fifa_rank = 9, matches_played = 1,
     wins = 1, draws = 0, losses = 0, goals_for = 2, goals_against = 0, points = 3\<rparr>"

definition mozambique :: TeamStats where
  "mozambique = \<lparr>name = ''Mozambique'', group = ''A'', fifa_rank = 92, matches_played = 0,
     wins = 0, draws = 0, losses = 0, goals_for = 0, goals_against = 0, points = 0\<rparr>"

definition cameroon :: TeamStats where
  "cameroon = \<lparr>name = ''Cameroon'', group = ''A'', fifa_rank = 43, matches_played = 0,
     wins = 0, draws = 0, losses = 0, goals_for = 0, goals_against = 0, points = 0\<rparr>"

definition gabon :: TeamStats where
  "gabon = \<lparr>name = ''Gabon'', group = ''A'', fifa_rank = 75, matches_played = 1,
     wins = 0, draws = 1, losses = 0, goals_for = 1, goals_against = 1, points = 1\<rparr>"

definition main_analyzer :: AFCONAnalyzer where
  "main_analyzer =
     add_match
       (add_match
          (add_team (add_team (add_team (add_team init ivory_coast) mozambique) cameroon) gabon)
          [(''time'', ''12:00 PM ET''), (''match'', ''Ivory Coast vs Mozambique'')])
       [(''time'', ''2:30 PM ET''), (''match'', ''Cameroon vs Gabon'')]"

text \<open>A further well-formed record, not part of the script's data: a team ranked 29th
  that won its only match 6--2.\<close>

definition visitor :: TeamStats where
  "visitor = \<lparr>name = ''Visitor'', group = ''B'', fifa_rank = 29, matches_played = 1,
     wins = 1, draws = 0, losses = 0, goals_for = 6, goals_against = 2, points = 3\<rparr>"

section \<open>Evaluating the arithmetic on numerals\<close>

lemma floor_rat_numeral [simp]:
  "\<lfloor>numeral a / numeral b :: rat\<rfloor> = numeral a div numeral b"
  by (metis floor_divide_of_int_eq of_int_numeral)

lemma floor_rat_neg_numeral [simp]:
  "\<lfloor>- (numeral a / numeral b) :: rat\<rfloor> = - numeral a div numeral b"
  by (metis divide_minus_left floor_divide_of_int_eq of_int_neg_numeral of_int_numeral)

lemma floor_rat_one_numeral [simp]:
  "\<lfloor>1 / numeral b :: rat\<rfloor> = 1 div numeral b"
  by (metis floor_divide_of_int_eq of_int_1 of_int_numeral)

lemma floor_rat_neg_one_numeral [simp]:
  "\<lfloor>- (1 / numeral b) :: rat\<rfloor> = - 1 div numeral b"
  by (metis (mono_tags, opaque_lifting) div_minus_right minus_divide_right
    floor_divide_of_int_eq of_int_neg_numeral of_int_1)

lemma ceiling_rat_numeral [simp]:
  "\<lceil>numeral a / numeral b :: rat\<rceil> = - (- numeral a div numeral b)"
  by (metis ceiling_divide_eq_div of_int_numeral)

lemma ceiling_rat_one_numeral [simp]:
  "\<lceil>1 / numeral b :: rat\<rceil> = - (- 1 div numeral b)"
  by (metis ceiling_divide_eq_div of_int_1 of_int_numeral)

lemmas float_eval = to_double_def quantum_def ilog2_def round_half_even_def compute_bitlen Let_def
  signed_zero_def

lemmas py_eval = ebind_def finite_or_overflow_def int_to_float_def as_float_def float_binop_def
  py_add_def py_sub_def py_mul_def int_truediv_def py_truediv_def py_round_def ext_val_def
  py_lt_def py_le_def py_gt_def float_lit_def fadd_def fsub_def fmul_def fdiv_def fneg_def
  fval_def signbit_def is_zero_def is_inf_def signed_inf_def

lemmas prog_eval = goal_difference_def avg_goals_per_match_def win_percentage_def
  defense_strength_def team_score_def total_of_def team1_win_prob_def team2_win_prob_def

lemmas data_eval = ivory_coast_def mozambique_def cameroon_def gabon_def visitor_def

lemma main_teams:
  "teams main_analyzer = [(''Ivory Coast'', ivory_coast), (''Mozambique'', mozambique),
     (''Cameroon'', cameroon), (''Gabon'', gabon)]"
  by (simp add: main_analyzer_def init_def add_team_def add_match_def data_eval)


section \<open>Derived metrics\<close>

text \<open>
  Claim C5.  For a team record with \<open>matches_played = 0\<close> the three derived ratios
  \<open>avg_goals_per_match\<close>, \<open>win_percentage\<close> and \<open>defense_strength\<close> are all the integer
  0, and each is returned normally: the division is never evaluated, so no
  \<^verbatim>\<open>ZeroDivisionError\<close> (and no other exception) occurs.
\<close>

theorem zero_matches_metrics:
  assumes "matches_played t = 0"
  shows "avg_goals_per_match t = Inr (IntV 0) \<and> win_percentage t = Inr (IntV 0)
    \<and> defense_strength t = Inr (IntV 0)"
  using assms by (simp add: avg_goals_per_match_def win_percentage_def defense_strength_def)

theorem zero_matches_metrics_witness:
  "matches_played mozambique = 0 \<and> avg_goals_per_match mozambique = Inr (IntV 0)
    \<and> win_percentage mozambique = Inr (IntV 0) \<and> defense_strength mozambique = Inr (IntV 0)"
proof -
  have h: "matches_played mozambique = 0" by (simp add: mozambique_def)
  from zero_matches_metrics [OF h] h show ?thesis by simp
qed

text \<open>The only exception the arithmetic of this program can raise is \<^verbatim>\<open>OverflowError\<close>,
  on integers beyond the range of binary64.\<close>

lemma finite_or_overflow_error: "finite_or_overflow x = Inl e \<Longrightarrow> e = OverflowError"
  by (auto simp: finite_or_overflow_def split: if_splits)

lemma as_float_error: "as_float v = Inl e \<Longrightarrow> e = OverflowError"
  by (auto simp: as_float_def int_to_float_def split: pyval.splits dest: finite_or_overflow_error)

lemma float_binop_error: "float_binop f a b = Inl e \<Longrightarrow> e = OverflowError"
  by (auto simp: float_binop_def ebind_def split: sum.splits dest: as_float_error)

lemma py_add_error: "py_add a b = Inl e \<Longrightarrow> e = OverflowError"
  by (auto simp: py_add_def split: pyval.splits dest: float_binop_error)

lemma py_sub_error: "py_sub a b = Inl e \<Longrightarrow> e = OverflowError"
  by (auto simp: py_sub_def split: pyval.splits dest: float_binop_error)

lemma py_mul_error: "py_mul a b = Inl e \<Longrightarrow> e = OverflowError"
  by (auto simp: py_mul_def split: pyval.splits dest: float_binop_error)

lemma py_round_error: "py_round v n = Inl e \<Longrightarrow> e = OverflowError"
  by (auto simp: py_round_def ebind_def split: pyval.splits pyfloat.splits sum.splits if_splits
      dest: finite_or_overflow_error)

lemma int_truediv_error: "j \<noteq> 0 \<Longrightarrow> int_truediv i j = Inl e \<Longrightarrow> e = OverflowError"
  by (auto simp: int_truediv_def ebind_def split: sum.splits dest: finite_or_overflow_error)

lemma int_truediv_float: "int_truediv i j = Inr v \<Longrightarrow> \<exists>x. v = FloatV x"
  by (auto simp: int_truediv_def ebind_def split: sum.splits if_splits)

lemma avg_goals_per_match_error: "avg_goals_per_match t = Inl e \<Longrightarrow> e = OverflowError"
  by (auto simp: avg_goals_per_match_def py_truediv_def ebind_def split: if_splits sum.splits
      dest: int_truediv_error py_round_error)

lemma defense_strength_error: "defense_strength t = Inl e \<Longrightarrow> e = OverflowError"
  by (auto simp: defense_strength_def py_truediv_def ebind_def split: if_splits sum.splits
      dest: int_truediv_error py_round_error)

lemma win_percentage_error: "win_percentage t = Inl e \<Longrightarrow> e = OverflowError"
  by (auto simp: win_percentage_def py_truediv_def ebind_def split: if_splits sum.splits
      dest: int_truediv_error py_round_error py_mul_error)


lemma ebind_Inr_iff: "ebind m f = Inr r \<longleftrightarrow> (\<exists>x. m = Inr x \<and> f x = Inr r)"
  by (cases m) (simp_all add: ebind_def)

lemma ebind_Inl_iff: "ebind m f = Inl e \<longleftrightarrow> m = Inl e \<or> (\<exists>x. m = Inr x \<and> f x = Inl e)"
  by (cases m) (simp_all add: ebind_def)

section \<open>Lookup misses\<close>

text \<open>
  Claim C7.  \<open>compare_teams\<close> and \<open>predict_outcome\<close> return the dictionary carrying the
  \<^verbatim>\<open>"error"\<close> entry exactly when at least one of the two names is absent from the team
  mapping.  In that case the call returns normally (\<open>Inr\<close>): nothing is raised.
\<close>

theorem lookup_miss_is_error_reply:
  "((\<exists>msg. compare_teams a n1 n2 = Inr (Error msg)) \<longleftrightarrow>
      get_team a n1 = None \<or> get_team a n2 = None) \<and>
   ((\<exists>msg. predict_outcome a n1 n2 = Inr (Error msg)) \<longleftrightarrow>
      get_team a n1 = None \<or> get_team a n2 = None)"
  by (auto simp: compare_teams_def predict_outcome_def ebind_Inr_iff split: option.splits)

section \<open>Head-to-head comparison\<close>

lemma dict2_lookup:
  "map_of (dict2 k1 v1 k2 v2) k = (if k = k2 then Some v2 else if k = k1 then Some v1 else None)"
  by (simp add: dict2_def update_conv')

lemma dict2_swap:
  "k1 = k2 \<longrightarrow> v1 = v2 \<Longrightarrow> map_of (dict2 k1 v1 k2 v2) k = map_of (dict2 k2 v2 k1 v1) k"
  by (auto simp: dict2_lookup)

text \<open>
  Whatever the integers are, the two argument orders agree: either both calls raise
  \<^verbatim>\<open>OverflowError\<close>, or both return and map every team name to the same value in each of
  the seven per-team entries.
\<close>

lemma compare_teams_swap_or_raise:
  assumes "get_team a A = Some ta" and "get_team a B = Some tb"
  shows "(compare_teams a A B = Inl OverflowError \<and> compare_teams a B A = Inl OverflowError) \<or>
    (\<exists>c c'. compare_teams a A B = Inr (Result c) \<and> compare_teams a B A = Inr (Result c') \<and>
       map_of (c_fifa_ranks c) T = map_of (c_fifa_ranks c') T \<and>
       map_of (c_points c) T = map_of (c_points c') T \<and>
       map_of (c_goal_difference c) T = map_of (c_goal_difference c') T \<and>
       map_of (c_offensive_power c) T = map_of (c_offensive_power c') T \<and>
       map_of (c_defensive_strength c) T = map_of (c_defensive_strength c') T \<and>
       map_of (c_win_percentage c) T = map_of (c_win_percentage c') T \<and>
       map_of (c_recent_form c) T = map_of (c_recent_form c') T)"
proof -
  have same: "A = B \<Longrightarrow> ta = tb" using assms by simp
  consider (err) e where "avg_goals_per_match ta = Inl e \<or> defense_strength ta = Inl e \<or>
        win_percentage ta = Inl e \<or> avg_goals_per_match tb = Inl e \<or>
        defense_strength tb = Inl e \<or> win_percentage tb = Inl e"
    | (ok) o1 d1 w1 o2 d2 w2 where "avg_goals_per_match ta = Inr o1" "defense_strength ta = Inr d1"
        "win_percentage ta = Inr w1" "avg_goals_per_match tb = Inr o2" "defense_strength tb = Inr d2"
        "win_percentage tb = Inr w2"
    by (metis sum.exhaust)
  then show ?thesis
  proof cases
    case err
    have all: "\<And>x e. avg_goals_per_match x = Inl e \<or> defense_strength x = Inl e \<or>
        win_percentage x = Inl e \<Longrightarrow> e = OverflowError"
      using avg_goals_per_match_error defense_strength_error win_percentage_error by blast
    have "compare_teams a A B = Inl OverflowError"
      using err assms
      by (auto simp: compare_teams_def ebind_def split: sum.splits
          dest: avg_goals_per_match_error defense_strength_error win_percentage_error)
    moreover have "compare_teams a B A = Inl OverflowError"
      using err assms
      by (auto simp: compare_teams_def ebind_def split: sum.splits
          dest: avg_goals_per_match_error defense_strength_error win_percentage_error)
    ultimately show ?thesis by simp
  next
    case ok
    then show ?thesis
      using assms same by (auto simp: compare_teams_def ebind_def dict2_lookup)
  qed
qed


lemma get_main:
  "get_team main_analyzer ''Ivory Coast'' = Some ivory_coast"
  "get_team main_analyzer ''Mozambique'' = Some mozambique"
  "get_team main_analyzer ''Cameroon'' = Some cameroon"
  "get_team main_analyzer ''Gabon'' = Some gabon"
  by (simp_all add: get_team_def main_teams)

section \<open>Group standings\<close>

lemma sorted_reverse_mset: "mset (sorted_reverse k xs) = mset xs"
  by (simp add: sorted_reverse_def)

lemma sorted_reverse_length: "length (sorted_reverse k xs) = length xs"
  by (simp add: sorted_reverse_def)

lemma sorted_reverse_descending: "sorted_wrt (\<lambda>x y. k y \<le> k x) (sorted_reverse k xs)"
proof -
  have "sorted (map k (sort_key k (rev xs)))" by simp
  then have "sorted_wrt (\<lambda>x y. k x \<le> k y) (sort_key k (rev xs))"
    by (simp add: sorted_map)
  then show ?thesis
    by (simp add: sorted_reverse_def sorted_wrt_rev)
qed

lemma analyze_group_nth:
  assumes "i < length (analyze_group a g)"
  shows "analyze_group a g ! i =
    standing_of (Suc i, sorted_reverse (\<lambda>x. (points x, goal_difference x))
      (filter (\<lambda>team. group team = g) (map snd (teams a))) ! i)"
  using assms by (simp add: analyze_group_def Let_def nth_enumerate_eq)

lemma analyze_group_length:
  "length (analyze_group a g) = length (filter (\<lambda>team. group team = g) (map snd (teams a)))"
  by (simp add: analyze_group_def Let_def sorted_reverse_length)

text \<open>
  Claim C4.  For every group label, the standings returned by \<open>analyze_group\<close> contain
  exactly the teams carrying that label: the rows, positions set aside, are the names,
  points, match counts, goals and goal differences (goals for minus goals against) of
  those teams, each team once.  The positions count from 1 in list order.  Along the
  list points never increase, and between two adjacent rows with equal points the goal
  difference does not increase.
\<close>

theorem analyze_group_standings:
  "mset (map (\<lambda>s. (s_team s, s_points s, s_matches s, s_wins s, s_draws s, s_losses s,
                   s_goals_for s, s_goals_against s, s_goal_difference s))
          (analyze_group a g)) =
     mset (map (\<lambda>team. (name team, points team, matches_played team, wins team, draws team,
                        losses team, goals_for team, goals_against team,
                        goals_for team - goals_against team))
       (filter (\<lambda>team. group team = g) (map snd (teams a)))) \<and>
   (\<forall>i < length (analyze_group a g). s_position (analyze_group a g ! i) = i + 1) \<and>
   (\<forall>i. i + 1 < length (analyze_group a g) \<longrightarrow>
      s_points (analyze_group a g ! (i + 1)) \<le> s_points (analyze_group a g ! i) \<and>
      (s_points (analyze_group a g ! i) = s_points (analyze_group a g ! (i + 1)) \<longrightarrow>
         s_goal_difference (analyze_group a g ! (i + 1)) \<le>
           s_goal_difference (analyze_group a g ! i)))"
proof (intro conjI allI impI)
  let ?ts = "filter (\<lambda>team. group team = g) (map snd (teams a))"
  let ?k = "\<lambda>x. (points x, goal_difference x)"
  let ?st = "sorted_reverse ?k ?ts"
  let ?row = "\<lambda>s. (s_team s, s_points s, s_matches s, s_wins s, s_draws s, s_losses s,
                   s_goals_for s, s_goals_against s, s_goal_difference s)"
  let ?rec = "\<lambda>team. (name team, points team, matches_played team, wins team, draws team,
                        losses team, goals_for team, goals_against team,
                        goals_for team - goals_against team)"
  have rows: "map ?row (analyze_group a g) = map (\<lambda>p. ?rec (snd p)) (List.enumerate 1 ?st)"
    by (simp add: analyze_group_def Let_def standing_of_def goal_difference_def split_beta)
  have unzip: "map (\<lambda>p. ?rec (snd p)) (List.enumerate 1 ?st) =
      map ?rec (map snd (List.enumerate 1 ?st))"
    by (simp only: map_map comp_def)
  have second: "map snd (List.enumerate 1 ?st) = ?st"
    by (rule map_snd_enumerate)
  have "map ?row (analyze_group a g) = map ?rec ?st"
    by (simp only: rows unzip second)
  then have "mset (map ?row (analyze_group a g)) = image_mset ?rec (mset ?st)"
    by simp
  then show "mset (map ?row (analyze_group a g)) = mset (map ?rec ?ts)"
    by (simp add: sorted_reverse_mset)
next
  fix i assume "i < length (analyze_group a g)"
  then show "s_position (analyze_group a g ! i) = i + 1"
    by (simp add: analyze_group_nth standing_of_def)
next
  fix i assume i: "i + 1 < length (analyze_group a g)"
  let ?ts = "filter (\<lambda>team. group team = g) (map snd (teams a))"
  let ?k = "\<lambda>x. (points x, goal_difference x)"
  let ?st = "sorted_reverse ?k ?ts"
  have len: "i + 1 < length ?st"
    using i by (simp add: analyze_group_length sorted_reverse_length)
  have "?k (?st ! (i + 1)) \<le> ?k (?st ! i)"
    using sorted_wrt_nth_less [OF sorted_reverse_descending [of ?k ?ts], of i "i + 1"] len
    by simp
  then have key: "points (?st ! (i + 1)) < points (?st ! i) \<or>
      (points (?st ! (i + 1)) = points (?st ! i) \<and>
       goal_difference (?st ! (i + 1)) \<le> goal_difference (?st ! i))"
    by (auto simp: less_eq_prod_def)
  have n0: "analyze_group a g ! i = standing_of (Suc i, ?st ! i)"
    using i by (simp add: analyze_group_nth)
  have n1: "analyze_group a g ! (i + 1) = standing_of (Suc (i + 1), ?st ! (i + 1))"
    using i analyze_group_nth [of "i + 1" a g] by simp
  have p0: "s_points (analyze_group a g ! i) = points (?st ! i)"
    and g0: "s_goal_difference (analyze_group a g ! i) = goal_difference (?st ! i)"
    unfolding n0 by (simp_all add: standing_of_def)
  have p1: "s_points (analyze_group a g ! (i + 1)) = points (?st ! (i + 1))"
    and g1: "s_goal_difference (analyze_group a g ! (i + 1)) = goal_difference (?st ! (i + 1))"
    unfolding n1 by (simp_all add: standing_of_def)
  show "s_points (analyze_group a g ! (i + 1)) \<le> s_points (analyze_group a g ! i)"
    unfolding p0 p1 using key by auto
  assume "s_points (analyze_group a g ! i) = s_points (analyze_group a g ! (i + 1))"
  then show "s_goal_difference (analyze_group a g ! (i + 1)) \<le>
      s_goal_difference (analyze_group a g ! i)"
    unfolding p0 p1 g0 g1 using key by auto
qed

theorem analyze_group_standings_witness:
  "(0::nat) + 1 < length (analyze_group main_analyzer ''A'') \<and>
   s_position (analyze_group main_analyzer ''A'' ! 0) = 0 + 1 \<and>
   s_points (analyze_group main_analyzer ''A'' ! (0 + 1)) \<le>
     s_points (analyze_group main_analyzer ''A'' ! 0)"
proof -
  have len: "(0::nat) + 1 < length (analyze_group main_analyzer ''A'')"
    by (simp add: analyze_group_length main_teams data_eval)
  note std = analyze_group_standings [of main_analyzer "''A''"]
  from std have pos: "\<forall>i < length (analyze_group main_analyzer ''A'').
      s_position (analyze_group main_analyzer ''A'' ! i) = i + 1"
    by (rule conjunct1 [OF conjunct2])
  from std have adj: "\<forall>i. i + 1 < length (analyze_group main_analyzer ''A'') \<longrightarrow>
      s_points (analyze_group main_analyzer ''A'' ! (i + 1)) \<le>
        s_points (analyze_group main_analyzer ''A'' ! i) \<and>
      (s_points (analyze_group main_analyzer ''A'' ! i) =
         s_points (analyze_group main_analyzer ''A'' ! (i + 1)) \<longrightarrow>
       s_goal_difference (analyze_group main_analyzer ''A'' ! (i + 1)) \<le>
         s_goal_difference (analyze_group main_analyzer ''A'' ! i))"
    by (rule conjunct2 [OF conjunct2])
  have len0: "0 < length (analyze_group main_analyzer ''A'')"
    using len by linarith
  have "s_position (analyze_group main_analyzer ''A'' ! 0) = 0 + 1"
    using pos len0 by blast
  moreover have "s_points (analyze_group main_analyzer ''A'' ! (0 + 1)) \<le>
      s_points (analyze_group main_analyzer ''A'' ! 0)"
    using adj len by blast
  ultimately show ?thesis
    using len by blast
qed

section \<open>Prediction on concrete records\<close>

lemma team_score_ivory_coast:
  "team_score ivory_coast = Inr (FloatV (Finite (4278419646001971 / 562949953421312)))"
  by (simp add: data_eval prog_eval py_eval float_eval)

lemma team_score_mozambique:
  "team_score mozambique = Inr (FloatV (Finite (- (5995417003936973 / 281474976710656))))"
  by (simp add: data_eval prog_eval py_eval float_eval)

lemma team_score_cameroon:
  "team_score cameroon = Inr (FloatV (Finite (- (3715469692580659 / 562949953421312))))"
  by (simp add: data_eval prog_eval py_eval float_eval)

lemma team_score_visitor:
  "team_score visitor = Inr (FloatV (Finite (7430939385161319 / 1125899906842624)))"
  by (simp add: data_eval prog_eval py_eval float_eval)

lemma avg_goals_main:
  "avg_goals_per_match ivory_coast = Inr (FloatV (Finite 2))"
  "avg_goals_per_match mozambique = Inr (IntV 0)"
  "avg_goals_per_match cameroon = Inr (IntV 0)"
  "avg_goals_per_match visitor = Inr (FloatV (Finite 6))"
  by (simp_all add: data_eval prog_eval py_eval float_eval)

lemma total_ivory_mozambique:
  "total_of (FloatV (Finite (4278419646001971 / 562949953421312)))
     (FloatV (Finite (- (5995417003936973 / 281474976710656)))) =
   Inr (FloatV (Finite (- (7712414361871975 / 562949953421312))))"
  by (simp add: prog_eval py_eval float_eval)

lemma total_ivory_cameroon:
  "total_of (FloatV (Finite (4278419646001971 / 562949953421312)))
     (FloatV (Finite (- (3715469692580659 / 562949953421312)))) = Inr (FloatV (Finite 1))"
  by (simp add: prog_eval py_eval float_eval)

lemma total_cameroon_visitor:
  "total_of (FloatV (Finite (- (3715469692580659 / 562949953421312))))
     (FloatV (Finite (7430939385161319 / 1125899906842624))) =
   Inr (FloatV (Finite (1 / 1125899906842624)))"
  by (simp add: prog_eval py_eval float_eval)

lemma predict_ivory_mozambique:
  "predict_outcome main_analyzer ''Ivory Coast'' ''Mozambique'' = Inr (Result
     \<lparr>p_match = ''Ivory Coast vs Mozambique'',
      p_prediction = [(''Ivory Coast'', FStr (IntV 50) ''%''), (''Mozambique'', FStr (IntV 50) ''%'')],
      p_estimated_goals = [(''Ivory Coast'', FloatV (Finite 2)), (''Mozambique'', IntV 0)]\<rparr>)"
  by (simp add: predict_outcome_def get_main team_score_ivory_coast team_score_mozambique
      total_ivory_mozambique avg_goals_main dict2_def team1_win_prob_def team2_win_prob_def
      py_eval float_eval)

lemma predict_ivory_cameroon:
  "predict_outcome main_analyzer ''Ivory Coast'' ''Cameroon'' = Inr (Result
     \<lparr>p_match = ''Ivory Coast vs Cameroon'',
      p_prediction = [(''Ivory Coast'', FStr (FloatV (Finite 760)) ''%''),
                      (''Cameroon'', FStr (FloatV (Finite (- 660))) ''%'')],
      p_estimated_goals = [(''Ivory Coast'', FloatV (Finite 2)), (''Cameroon'', IntV 0)]\<rparr>)"
  by (simp add: predict_outcome_def get_main team_score_ivory_coast team_score_cameroon
      total_ivory_cameroon avg_goals_main dict2_def team1_win_prob_def team2_win_prob_def
      py_eval float_eval)

lemma get_visitor:
  "get_team (add_team main_analyzer visitor) ''Cameroon'' = Some cameroon"
  "get_team (add_team main_analyzer visitor) ''Visitor'' = Some visitor"
  by (simp_all add: get_team_def add_team_def main_teams visitor_def)

lemma predict_cameroon_visitor:
  "predict_outcome (add_team main_analyzer visitor) ''Cameroon'' ''Visitor'' = Inr (Result
     \<lparr>p_match = ''Cameroon vs Visitor'',
      p_prediction = [(''Cameroon'', FStr (FloatV (Finite (- 743093938516131840))) ''%''),
                      (''Visitor'', FStr (FloatV (Finite 743093938516131968)) ''%'')],
      p_estimated_goals = [(''Cameroon'', IntV 0), (''Visitor'', FloatV (Finite 6))]\<rparr>)"
  by (simp add: predict_outcome_def get_visitor team_score_visitor team_score_cameroon
      total_cameroon_visitor avg_goals_main dict2_def team1_win_prob_def team2_win_prob_def
      py_eval float_eval)

lemma compare_ivory_mozambique:
  "compare_teams main_analyzer ''Ivory Coast'' ''Mozambique'' = Inr (Result
     \<lparr>c_match_up = ''Ivory Coast vs Mozambique'',
      c_fifa_ranks = [(''Ivory Coast'', 9), (''Mozambique'', 92)],
      c_points = [(''Ivory Coast'', 3), (''Mozambique'', 0)],
      c_goal_difference = [(''Ivory Coast'', 2), (''Mozambique'', 0)],
      c_offensive_power = [(''Ivory Coast'', FloatV (Finite 2)), (''Mozambique'', IntV 0)],
      c_defensive_strength = [(''Ivory Coast'', FStr (FloatV (Finite 0)) '' goals/match''),
                              (''Mozambique'', FStr (IntV 0) '' goals/match'')],
      c_win_percentage = [(''Ivory Coast'', FStr (FloatV (Finite 100)) ''%''),
                          (''Mozambique'', FStr (IntV 0) ''%'')],
      c_recent_form = [(''Ivory Coast'', FStr (IntV 1) '' matches played''),
                       (''Mozambique'', FStr (IntV 0) '' matches played'')]\<rparr>)"
  by (simp add: compare_teams_def get_main dict2_def data_eval prog_eval py_eval float_eval)

text \<open>
  Claim C2 (as stated).  For Ivory Coast (rank 9, one match, one win, 2:0 goals, 3 points)
  against Mozambique (rank 92, nothing played), \<open>compare_teams\<close> reports goal differences 2
  and 0 and win percentages \<^verbatim>\<open>100.0%\<close> and \<^verbatim>\<open>0%\<close>, and \<open>predict_outcome\<close> gives the first
  team a win probability strictly above 50.  The last part fails: the returned probability
  of Ivory Coast is the integer 50, which is not greater than 50.
\<close>

theorem example_prediction_not_above_50:
  "predict_outcome main_analyzer ''Ivory Coast'' ''Mozambique'' = Inr (Result
     \<lparr>p_match = ''Ivory Coast vs Mozambique'',
      p_prediction = [(''Ivory Coast'', FStr (IntV 50) ''%''), (''Mozambique'', FStr (IntV 50) ''%'')],
      p_estimated_goals = [(''Ivory Coast'', FloatV (Finite 2)), (''Mozambique'', IntV 0)]\<rparr>) \<and>
   \<not> py_gt (IntV 50) (IntV 50)"
  by (simp add: predict_ivory_mozambique py_gt_def py_lt_def ext_val_def)

text \<open>
  Claim C2 (amended).  For the same two records \<open>compare_teams\<close> reports goal differences
  2 and 0 and win percentages \<^verbatim>\<open>100.0%\<close> and \<^verbatim>\<open>0%\<close>; the two composite scores sum to a
  negative total (7.6 and -21.3), so \<open>predict_outcome\<close> takes the fallback and gives both
  teams exactly \<^verbatim>\<open>50%\<close>.
\<close>

theorem example_end_to_end:
  "(\<exists>c. compare_teams main_analyzer ''Ivory Coast'' ''Mozambique'' = Inr (Result c) \<and>
      c_goal_difference c = [(''Ivory Coast'', 2), (''Mozambique'', 0)] \<and>
      c_win_percentage c = [(''Ivory Coast'', FStr (FloatV (Finite 100)) ''%''),
                            (''Mozambique'', FStr (IntV 0) ''%'')]) \<and>
   (\<exists>s1 s2 total p. team_score ivory_coast = Inr s1 \<and> team_score mozambique = Inr s2 \<and>
      total_of s1 s2 = Inr total \<and> py_le total (IntV 0) \<and>
      predict_outcome main_analyzer ''Ivory Coast'' ''Mozambique'' = Inr (Result p) \<and>
      p_prediction p = [(''Ivory Coast'', FStr (IntV 50) ''%''),
                        (''Mozambique'', FStr (IntV 50) ''%'')])"
proof (rule conjI)
  show "\<exists>c. compare_teams main_analyzer ''Ivory Coast'' ''Mozambique'' = Inr (Result c) \<and>
      c_goal_difference c = [(''Ivory Coast'', 2), (''Mozambique'', 0)] \<and>
      c_win_percentage c = [(''Ivory Coast'', FStr (FloatV (Finite 100)) ''%''),
                            (''Mozambique'', FStr (IntV 0) ''%'')]"
    by (simp add: compare_ivory_mozambique)
  have "py_le (FloatV (Finite (- (7712414361871975 / 562949953421312)))) (IntV 0)"
    by (simp add: py_le_def ext_val_def)
  then show "\<exists>s1 s2 total p. team_score ivory_coast = Inr s1 \<and> team_score mozambique = Inr s2 \<and>
      total_of s1 s2 = Inr total \<and> py_le total (IntV 0) \<and>
      predict_outcome main_analyzer ''Ivory Coast'' ''Mozambique'' = Inr (Result p) \<and>
      p_prediction p = [(''Ivory Coast'', FStr (IntV 50) ''%''),
                        (''Mozambique'', FStr (IntV 50) ''%'')]"
    by (simp add: team_score_ivory_coast team_score_mozambique total_ivory_mozambique
        predict_ivory_mozambique)
qed

text \<open>
  Claim C10.  There are two records present in the team mapping for which
  \<open>predict_outcome\<close> returns a probability above 100 for one team and below 0 for the
  other: one composite score is negative while the total is strictly positive.  The
  script's own data has such a pair, Ivory Coast and Cameroon, with \<^verbatim>\<open>760.0%\<close> and
  \<^verbatim>\<open>-660.0%\<close>.  So the returned probabilities need not lie between 0 and 100.
\<close>

theorem probabilities_outside_range:
  "\<exists>a n1 n2 t1 t2 s1 s2 total m r1 r2 g.
     get_team a n1 = Some t1 \<and> get_team a n2 = Some t2 \<and>
     team_score t1 = Inr s1 \<and> team_score t2 = Inr s2 \<and> total_of s1 s2 = Inr total \<and>
     py_lt s2 (IntV 0) \<and> py_gt total (IntV 0) \<and>
     predict_outcome a n1 n2 = Inr (Result
       \<lparr>p_match = m, p_prediction = [(n1, FStr r1 ''%''), (n2, FStr r2 ''%'')],
        p_estimated_goals = g\<rparr>) \<and>
     py_gt r1 (IntV 100) \<and> py_lt r2 (IntV 0)"
proof -
  have neg: "py_lt (FloatV (Finite (- (3715469692580659 / 562949953421312)))) (IntV 0)"
    by (simp add: py_lt_def ext_val_def)
  have pos: "py_gt (FloatV (Finite 1)) (IntV 0)"
    by (simp add: py_gt_def py_lt_def ext_val_def)
  have hi: "py_gt (FloatV (Finite 760)) (IntV 100)"
    by (simp add: py_gt_def py_lt_def ext_val_def)
  have lo: "py_lt (FloatV (Finite (- 660))) (IntV 0)"
    by (simp add: py_lt_def ext_val_def)
  show ?thesis
    by (intro exI conjI)
      (rule get_main(1) get_main(3) team_score_ivory_coast team_score_cameroon
        total_ivory_cameroon neg pos predict_ivory_cameroon hi lo)+
qed

text \<open>
  Claim C1.  The two returned win probabilities sum to 100 within 0.1.  The code breaks
  this on well-formed records: for Cameroon (rank 43, nothing played) against a team ranked
  29th that won its only match 6--2, the two scores are -6.6 and 6.6000000000000005 in
  binary64, their sum is \<open>2\<^sup>-\<^sup>5\<^sup>0\<close> instead of 0, the guard \<^verbatim>\<open>total_score > 0\<close> lets it
  through, and the returned values are \<^verbatim>\<open>-7.430939385161318e+17%\<close> and
  \<^verbatim>\<open>7.43093938516132e+17%\<close>, which sum to 128.
\<close>

theorem probabilities_sum_failure:
  "predict_outcome (add_team main_analyzer visitor) ''Cameroon'' ''Visitor'' = Inr (Result
     \<lparr>p_match = ''Cameroon vs Visitor'',
      p_prediction = [(''Cameroon'', FStr (FloatV (Finite (- 743093938516131840))) ''%''),
                      (''Visitor'', FStr (FloatV (Finite 743093938516131968)) ''%'')],
      p_estimated_goals = [(''Cameroon'', IntV 0), (''Visitor'', FloatV (Finite 6))]\<rparr>) \<and>
   (- 743093938516131840 + 743093938516131968 :: rat) = 128 \<and>
   \<not> \<bar>(- 743093938516131840 + 743093938516131968 :: rat) - 100\<bar> \<le> 1 / 10"
  by (simp add: predict_cameroon_visitor)

section \<open>The prediction formula\<close>

lemma float_binop_float: "float_binop f a b = Inr v \<Longrightarrow> \<exists>x. v = FloatV x"
  by (auto simp: float_binop_def ebind_Inr_iff)

lemma py_mul_float_lit: "py_mul a (float_lit q) = Inr v \<Longrightarrow> \<exists>x. v = FloatV x"
  by (auto simp: py_mul_def float_lit_def split: pyval.splits dest: float_binop_float)

lemma py_add_float_left: "py_add (FloatV x) b = Inr v \<Longrightarrow> \<exists>y. v = FloatV y"
  by (auto simp: py_add_def dest: float_binop_float)

lemma team_score_float: "team_score t = Inr s \<Longrightarrow> \<exists>x. s = FloatV x"
  unfolding team_score_def ebind_Inr_iff
  by (metis py_mul_float_lit py_add_float_left)

lemma team_score_error: "team_score t = Inl e \<Longrightarrow> e = OverflowError"
  unfolding team_score_def ebind_Inl_iff
  by (metis py_mul_error py_add_error py_sub_error avg_goals_per_match_error
      defense_strength_error)

lemma team_score_spec:
  "team_score t = Inr s \<longleftrightarrow>
     (\<exists>avg def. avg_goals_per_match t = Inr avg \<and> defense_strength t = Inr def \<and>
        spec_composite_score (fifa_rank t) avg def = Inr s)"
  unfolding team_score_def spec_composite_score_def ebind_Inr_iff
  by blast

lemma py_le_not_gt: "py_le v (IntV 0) \<Longrightarrow> \<not> py_gt v (IntV 0)"
  by (auto simp: py_le_def py_gt_def py_lt_def split: option.splits)

lemma py_truediv_positive_float:
  "py_gt (FloatV y) (IntV 0) \<Longrightarrow> py_truediv (FloatV x) (FloatV y) = Inl e \<Longrightarrow> False"
  by (auto simp: py_truediv_def as_float_def ebind_def fdiv_def is_zero_def
      py_gt_def py_lt_def ext_val_def split: if_splits)

lemma team1_win_prob_error:
  "team1_win_prob (FloatV x) (FloatV y) = Inl e \<Longrightarrow> e = OverflowError"
  by (auto simp: team1_win_prob_def ebind_Inl_iff split: if_splits
      dest: py_truediv_positive_float py_mul_error)

text \<open>
  Whatever the integers are, a call for two teams present either raises
  \<^verbatim>\<open>OverflowError\<close> or returns the prediction computed by the formula.
\<close>

lemma predict_outcome_formula_or_raise:
  assumes "get_team a n1 = Some t1" and "get_team a n2 = Some t2"
  shows "predict_outcome a n1 n2 = Inl OverflowError \<or>
    (\<exists>avg1 def1 avg2 def2 s1 s2 total p1 r1 r2 g1 g2.
       avg_goals_per_match t1 = Inr avg1 \<and> defense_strength t1 = Inr def1 \<and>
       avg_goals_per_match t2 = Inr avg2 \<and> defense_strength t2 = Inr def2 \<and>
       spec_composite_score (fifa_rank t1) avg1 def1 = Inr s1 \<and>
       spec_composite_score (fifa_rank t2) avg2 def2 = Inr s2 \<and>
       py_add s1 s2 = Inr total \<and>
       (py_gt total (IntV 0) \<longrightarrow>
          (\<exists>share. py_truediv s1 total = Inr share \<and> py_mul share (IntV 100) = Inr p1)) \<and>
       (py_le total (IntV 0) \<longrightarrow> p1 = IntV 50) \<and>
       py_round p1 1 = Inr r1 \<and>
       predict_outcome a n1 n2 = Inr (Result
         \<lparr>p_match = n1 @ '' vs '' @ n2,
          p_prediction = dict2 n1 (FStr r1 ''%'') n2 (FStr r2 ''%''),
          p_estimated_goals = dict2 n1 g1 n2 g2\<rparr>))"
proof (cases "predict_outcome a n1 n2")
  case (Inl e)
  have "e = OverflowError"
    using Inl assms
    unfolding predict_outcome_def
    apply (simp add: ebind_Inl_iff total_of_def team2_win_prob_def)
    apply (elim disjE exE conjE)
    apply (auto dest: team_score_error py_add_error py_sub_error py_round_error
        avg_goals_per_match_error dest!: team_score_float)
    apply (auto dest!: py_add_float_left dest: team1_win_prob_error)
    done
  then show ?thesis using Inl by simp
next
  case (Inr r)
  from Inr assms obtain s1 s2 total p1 p2 r1 r2 avg1 g1 avg2 g2 where
    s1: "team_score t1 = Inr s1" and s2: "team_score t2 = Inr s2" and
    tot: "py_add s1 s2 = Inr total" and
    p1: "team1_win_prob s1 total = Inr p1" and
    r1: "py_round p1 1 = Inr r1" and
    r: "r = Result \<lparr>p_match = n1 @ '' vs '' @ n2,
          p_prediction = dict2 n1 (FStr r1 ''%'') n2 (FStr r2 ''%''),
          p_estimated_goals = dict2 n1 g1 n2 g2\<rparr>"
    unfolding predict_outcome_def
    by (auto simp: ebind_Inr_iff total_of_def)
  from s1 obtain a1 d1 where m1: "avg_goals_per_match t1 = Inr a1" "defense_strength t1 = Inr d1"
      "spec_composite_score (fifa_rank t1) a1 d1 = Inr s1"
    unfolding team_score_spec by blast
  from s2 obtain a2 d2 where m2: "avg_goals_per_match t2 = Inr a2" "defense_strength t2 = Inr d2"
      "spec_composite_score (fifa_rank t2) a2 d2 = Inr s2"
    unfolding team_score_spec by blast
  have gt: "py_gt total (IntV 0) \<longrightarrow>
      (\<exists>share. py_truediv s1 total = Inr share \<and> py_mul share (IntV 100) = Inr p1)"
    using p1 by (auto simp: team1_win_prob_def ebind_Inr_iff)
  have le: "py_le total (IntV 0) \<longrightarrow> p1 = IntV 50"
    using p1 by (auto simp: team1_win_prob_def dest: py_le_not_gt)
  show ?thesis
    using m1 m2 tot gt le r1 Inr r by blast
qed


section \<open>Trend\<close>

lemma float_lit_one_hundredth:
  "to_double False (1 / 100) = Finite (5764607523034235 / 576460752303423488)"
  by (simp add: float_eval)

text \<open>
  Claim C9.  The classified trend is \<open>UPWARD\<close> exactly when the slope is strictly greater
  than the float \<^verbatim>\<open>0.01\<close>, \<open>DOWNWARD\<close> exactly when it is strictly less than \<^verbatim>\<open>-0.01\<close>,
  and \<open>STABLE\<close> in every other case (a NaN slope included).
\<close>

theorem trend_thresholds:
  "(trend_of slope = UPWARD \<longleftrightarrow> py_gt (FloatV slope) (float_lit (1 / 100))) \<and>
   (trend_of slope = DOWNWARD \<longleftrightarrow>
      py_lt (FloatV slope) (FloatV (fneg (to_double False (1 / 100))))) \<and>
   (trend_of slope = STABLE \<longleftrightarrow>
      \<not> py_gt (FloatV slope) (float_lit (1 / 100)) \<and>
      \<not> py_lt (FloatV slope) (FloatV (fneg (to_double False (1 / 100)))))"
  by (cases slope)
    (auto simp: trend_of_def py_gt_def py_lt_def ext_val_def float_lit_def fneg_def
      float_lit_one_hundredth)


section \<open>Regression on a linear series\<close>

lemma month_numbers_list: "month_numbers = [1, 2, 3, 4, 5, 6, 7, 8, 9, 10, 11, 12]"
  by (simp add: month_numbers_def upto_rec1)

lemma mean_months: "mean (map of_int month_numbers) = 13 / 2"
  by (simp add: month_numbers_list mean_def)

lemma mean_linear: "mean linear_prices = 53 / 4"
  by (simp add: linear_prices_def month_numbers_list mean_def)

lemma co_dev_xx: "co_deviation (map of_int month_numbers) (map of_int month_numbers) = 143"
  unfolding co_deviation_def mean_months by (simp add: month_numbers_list)

lemma co_dev_xy: "co_deviation (map of_int month_numbers) linear_prices = 143 / 2"
  unfolding co_deviation_def mean_months mean_linear
  by (simp add: linear_prices_def month_numbers_list)

lemma co_dev_yy: "co_deviation linear_prices linear_prices = 143 / 4"
  unfolding co_deviation_def mean_linear
  by (simp add: linear_prices_def month_numbers_list)

lemma sqrt_fit: "sqrt (20449 / 4) = 143 / 2"
  by (rule real_sqrt_unique) (simp_all add: power2_eq_square)

lemma linregress_linear:
  "linregress (map of_int month_numbers) linear_prices =
     (1 / 2, 10, 1)"
  by (simp add: linregress_def Let_def co_dev_xx co_dev_xy co_dev_yy sqrt_fit mean_months
      mean_linear)

lemma half_and_ten: "to_double False (1 / 2) = Finite (1 / 2)" "to_double False 10 = Finite 10"
  by (simp_all add: float_eval)

lemma future_predictions_linear:
  "future_predictions (Finite (1 / 2)) (Finite 10) =
     [Finite (1 / 2 * 13 + 10), Finite (1 / 2 * 14 + 10), Finite (1 / 2 * 15 + 10)]"
  by (simp add: future_predictions_def future_months_def py_eval float_eval)

text \<open>
  Claim C8.  For the twelve-point series \<open>prices[m] = 10 + 0.5 \<times> m\<close>, \<open>m = 1, \<dots>, 12\<close>, the
  least-squares fit has slope 0.5, intercept 10 and \<open>r_squared\<close> 1, exactly and so within
  every tolerance.  Slope and intercept are binary64 numbers, and the script's
  extrapolation from them to the months 13, 14 and 15 gives exactly
  \<open>slope \<times> index + intercept\<close>, that is 16.5, 17 and 17.5.
\<close>

theorem linear_series_fit:
  "\<exists>slope intercept r_value.
     linregress (map of_int month_numbers) linear_prices = (slope, intercept, r_value) \<and>
     slope = 1 / 2 \<and> intercept = 10 \<and> r_squared r_value = 1 \<and>
     to_double False (1 / 2) = Finite (1 / 2) \<and> to_double False 10 = Finite 10 \<and>
     future_predictions (Finite (1 / 2)) (Finite 10) =
       [Finite (1 / 2 * 13 + 10), Finite (1 / 2 * 14 + 10), Finite (1 / 2 * 15 + 10)] \<and>
     future_predictions (Finite (1 / 2)) (Finite 10) =
       [Finite (33 / 2), Finite 17, Finite (35 / 2)]"
proof -
  have "r_squared 1 = 1" by (simp add: r_squared_def)
  moreover have "future_predictions (Finite (1 / 2)) (Finite 10) =
       [Finite (33 / 2), Finite 17, Finite (35 / 2)]"
    by (simp add: future_predictions_linear)
  ultimately show ?thesis
    using linregress_linear half_and_ten future_predictions_linear by blast
qed

section \<open>Correct rounding\<close>

text \<open>
  The rounding function is what its name says: \<open>ilog2\<close> is the binary exponent,
  \<open>round_half_even\<close> is within one half of its argument, the rounded value is within half
  a spacing of the exact one, values below \<open>2\<^sup>1\<^sup>0\<^sup>2\<^sup>3\<close> in magnitude stay finite, and
  rounding a rounded value again changes nothing.
\<close>

lemma ilog2_bounds:
  assumes "0 < q"
  shows "2 powi (ilog2 q) \<le> q \<and> q < 2 powi (ilog2 q + 1)"
proof (cases "1 \<le> q")
  case True
  define n where "n = \<lfloor>q\<rfloor>"
  have n1: "1 \<le> n" using True by (simp add: n_def le_floor_iff)
  then have n0: "0 < n" by simp
  have b1: "1 \<le> bitlen n" using n0 by (simp add: bitlen_alt_def)
  from bitlen_bounds [OF n0] have lo: "2 ^ nat (bitlen n - 1) \<le> n" and hi: "n < 2 ^ nat (bitlen n)"
    by simp_all
  have il: "ilog2 q = bitlen n - 1" using True by (simp add: ilog2_def n_def)
  have "(2::rat) powi (bitlen n - 1) = 2 ^ nat (bitlen n - 1)"
    using b1 by (simp add: power_int_def)
  also have "\<dots> = of_int (2 ^ nat (bitlen n - 1))" by simp
  also have "\<dots> \<le> of_int n" using lo by (simp only: of_int_le_iff)
  also have "\<dots> \<le> q" by (simp add: n_def)
  finally have A: "2 powi (ilog2 q) \<le> q" by (simp add: il)
  have "n + 1 \<le> 2 ^ nat (bitlen n)" using hi by simp
  then have "(of_int (n + 1) :: rat) \<le> of_int (2 ^ nat (bitlen n))" by (simp only: of_int_le_iff)
  moreover have "q < of_int (n + 1)" unfolding n_def by linarith
  ultimately have "q < 2 ^ nat (bitlen n)" by simp
  moreover have "(2::rat) powi (bitlen n) = 2 ^ nat (bitlen n)"
    using b1 by (simp add: power_int_def)
  ultimately have B: "q < 2 powi (ilog2 q + 1)" by (simp add: il)
  from A B show ?thesis ..
next
  case False
  then have q1: "q < 1" by simp
  define c where "c = \<lceil>1 / q\<rceil>"
  define b where "b = bitlen (c - 1)"
  have inv: "1 < 1 / q" using assms q1 by (simp add: field_simps)
  then have c2: "2 \<le> c" unfolding c_def by (simp add: le_ceiling_iff)
  then have c0: "0 < c - 1" by simp
  have b1: "1 \<le> b" using c0 by (simp add: b_def bitlen_alt_def)
  from bitlen_bounds [OF c0] have lo: "2 ^ nat (b - 1) \<le> c - 1" and hi: "c - 1 < 2 ^ nat b"
    by (simp_all add: b_def)
  have il: "ilog2 q = - b" using False by (simp add: ilog2_def b_def c_def)
  have "1 / q \<le> of_int c" unfolding c_def by (rule le_of_int_ceiling)
  also have "c \<le> 2 ^ nat b" using hi by simp
  then have "(of_int c :: rat) \<le> of_int (2 ^ nat b)" by (simp only: of_int_le_iff)
  finally have "1 / q \<le> 2 ^ nat b" by simp
  then have "1 / 2 ^ nat b \<le> q" using assms by (simp add: field_simps)
  moreover have "(2::rat) powi (- b) = 1 / 2 ^ nat b"
    using b1 by (simp add: power_int_def field_simps)
  ultimately have A: "2 powi (ilog2 q) \<le> q" by (simp add: il)
  have "(of_int (2 ^ nat (b - 1)) :: rat) \<le> of_int (c - 1)" using lo by (simp only: of_int_le_iff)
  moreover have "of_int (c - 1) < 1 / q" unfolding c_def by linarith
  ultimately have "2 ^ nat (b - 1) < 1 / q" by simp
  then have "q < 1 / 2 ^ nat (b - 1)" using assms by (simp add: field_simps)
  moreover have "(2::rat) powi (- b + 1) = 1 / 2 ^ nat (b - 1)"
  proof (cases "b = 1")
    case True then show ?thesis by simp
  next
    case False
    with b1 have "- b + 1 < 0" by simp
    then show ?thesis by (simp add: power_int_def field_simps nat_diff_distrib)
  qed
  ultimately have B: "q < 2 powi (ilog2 q + 1)" by (simp add: il)
  from A B show ?thesis ..
qed

lemma powi2_less_cancel: "(2::rat) powi a < 2 powi b \<Longrightarrow> a < b"
proof (rule ccontr)
  assume lt: "(2::rat) powi a < 2 powi b" and "\<not> a < b"
  then have "b \<le> a" by simp
  then have "(2::rat) powi b \<le> 2 powi a" by (intro power_int_increasing) simp_all
  with lt show False by simp
qed

lemma ilog2_unique:
  assumes "0 < q" and "2 powi e \<le> q" and "q < 2 powi (e + 1)"
  shows "ilog2 q = e"
proof -
  from ilog2_bounds [OF assms(1)] have a: "2 powi (ilog2 q) \<le> q" and b: "q < 2 powi (ilog2 q + 1)"
    by simp_all
  have "(2::rat) powi e < 2 powi (ilog2 q + 1)" using assms(2) b by simp
  then have "e < ilog2 q + 1" by (rule powi2_less_cancel)
  moreover have "(2::rat) powi (ilog2 q) < 2 powi (e + 1)" using a assms(3) by simp
  then have "ilog2 q < e + 1" by (rule powi2_less_cancel)
  ultimately show ?thesis by simp
qed

lemma round_half_even_error: "\<bar>of_int (round_half_even x) - x\<bar> \<le> 1 / 2"
proof -
  define d where "d = x - of_int \<lfloor>x\<rfloor>"
  have d: "0 \<le> d" "d < 1" unfolding d_def by linarith+
  have x: "x = of_int \<lfloor>x\<rfloor> + d" by (simp add: d_def)
  consider "d < 1 / 2" | "1 / 2 < d" | "d = 1 / 2" by linarith
  then show ?thesis
  proof cases
    case 1
    then have "round_half_even x = \<lfloor>x\<rfloor>"
      by (simp add: round_half_even_def Let_def d_def)
    then show ?thesis using 1 d x by simp
  next
    case 2
    then have "round_half_even x = \<lfloor>x\<rfloor> + 1"
      by (simp add: round_half_even_def Let_def d_def)
    then show ?thesis using 2 d x by simp
  next
    case 3
    then have "round_half_even x = \<lfloor>x\<rfloor> \<or> round_half_even x = \<lfloor>x\<rfloor> + 1"
      by (simp add: round_half_even_def Let_def d_def)
    then show ?thesis using 3 x by auto
  qed
qed

lemma round_half_even_of_int [simp]: "round_half_even (of_int n) = n"
  by (simp add: round_half_even_def)

lemma quantum_pos: "0 < quantum q"
  by (simp add: quantum_def)

lemma to_double_error:
  "\<bar>of_int (round_half_even (q / quantum q)) * quantum q - q\<bar> \<le> quantum q / 2"
proof -
  let ?u = "quantum q"
  have u: "0 < ?u" by (rule quantum_pos)
  have "of_int (round_half_even (q / ?u)) * ?u - q =
        (of_int (round_half_even (q / ?u)) - q / ?u) * ?u"
    using u by (simp add: left_diff_distrib)
  then have "\<bar>of_int (round_half_even (q / ?u)) * ?u - q\<bar> =
        \<bar>of_int (round_half_even (q / ?u)) - q / ?u\<bar> * \<bar>?u\<bar>"
    by (simp only: abs_mult)
  also have "\<dots> = \<bar>of_int (round_half_even (q / ?u)) - q / ?u\<bar> * ?u"
    using u by simp
  also have "\<dots> \<le> 1 / 2 * ?u"
    using round_half_even_error [of "q / ?u"] u by (intro mult_right_mono) simp_all
  finally show ?thesis by simp
qed

lemma ilog2_less:
  assumes "0 < q" and "q < 2 powi k"
  shows "ilog2 q < k"
proof -
  from ilog2_bounds [OF assms(1)] have "2 powi (ilog2 q) \<le> q" by simp
  with assms(2) have "(2::rat) powi (ilog2 q) < 2 powi k" by simp
  then show ?thesis by (rule powi2_less_cancel)
qed

lemma quantum_le:
  assumes "q \<noteq> 0" and "\<bar>q\<bar> < 2 powi k" and "- 1022 < k"
  shows "quantum q \<le> 2 powi (k - 53)"
proof -
  have "ilog2 \<bar>q\<bar> < k" using assms by (intro ilog2_less) simp_all
  then have "max (ilog2 \<bar>q\<bar>) (- 1022) - 52 \<le> k - 53" using assms(3) by simp
  then show ?thesis unfolding quantum_def by (intro power_int_increasing) simp_all
qed

lemma to_double_cases:
  "to_double s q = Finite (of_int (round_half_even (q / quantum q)) * quantum q) \<or>
   to_double s q = Finite 0 \<or> to_double s q = NegZero \<or>
   to_double s q = PosInf \<or> to_double s q = NegInf"
  by (simp add: to_double_def Let_def signed_zero_def)

lemma to_double_not_NaN [simp]: "to_double s q \<noteq> NaN"
  using to_double_cases [of s q] by auto

lemma to_double_finite:
  assumes "\<bar>q\<bar> < 2 ^ 1023"
  shows "\<not> is_inf (to_double s q)"
proof (cases "q = 0")
  case True
  then show ?thesis by (simp add: to_double_def signed_zero_def is_inf_def)
next
  case False
  let ?r = "of_int (round_half_even (q / quantum q)) * quantum q"
  have "\<bar>q\<bar> < 2 powi 1023" using assms by simp
  then have "quantum q \<le> 2 powi (1023 - 53)" using False by (intro quantum_le) simp_all
  then have u: "quantum q \<le> 2 ^ 970" by simp
  have "\<bar>?r\<bar> \<le> \<bar>q\<bar> + \<bar>?r - q\<bar>" by simp
  also have "\<dots> \<le> \<bar>q\<bar> + quantum q / 2" using to_double_error [of q] by simp
  also have "\<dots> < 2 ^ 1023 + 2 ^ 970 / 2" using assms u by simp
  also have "\<dots> < 2 ^ 1024" by simp
  finally have "\<not> 2 ^ 1024 \<le> \<bar>?r\<bar>" by simp
  then show ?thesis using False
    by (simp add: to_double_def Let_def signed_zero_def is_inf_def)
qed

lemma to_double_Finite_D:
  assumes "to_double s q = Finite r" and "q \<noteq> 0"
  shows "r = of_int (round_half_even (q / quantum q)) * quantum q" and "\<bar>r\<bar> < 2 ^ 1024"
  using assms by (auto simp: to_double_def Let_def signed_zero_def split: if_splits)

lemma to_double_on_grid:
  assumes "r \<noteq> 0" and "\<bar>r\<bar> < 2 ^ 1024" and "r = of_int k * quantum r"
  shows "to_double s r = Finite r"
proof -
  have "r / quantum r = of_int k * quantum r / quantum r"
    using assms(3) by simp
  then have "r / quantum r = of_int k"
    using quantum_pos [of r] by simp
  then have "of_int (round_half_even (r / quantum r)) * quantum r = r"
    using assms(3) by simp
  then show ?thesis
    using assms(1,2) by (simp add: to_double_def Let_def)
qed

lemma to_double_fixed:
  assumes fin: "to_double s q = Finite r" and q0: "q \<noteq> 0" and e: "- 1022 \<le> ilog2 \<bar>q\<bar>"
  shows "to_double s' r = Finite r"
proof -
  define e where "e = ilog2 \<bar>q\<bar>"
  define u where "u = (2::rat) powi (e - 52)"
  define m where "m = round_half_even (q / u)"
  have qu: "quantum q = u" using e by (simp add: quantum_def u_def e_def max_def)
  have u0: "0 < u" by (simp add: u_def)
  have r: "r = of_int m * u" and rlt: "\<bar>r\<bar> < 2 ^ 1024"
    using to_double_Finite_D [OF fin q0] by (simp_all add: qu m_def)
  have qpos: "0 < \<bar>q\<bar>" using q0 by simp
  from ilog2_bounds [OF qpos] have qb: "2 powi e \<le> \<bar>q\<bar>" "\<bar>q\<bar> < 2 powi (e + 1)"
    by (simp_all add: e_def)
  have pe: "(2::rat) powi e = 2 ^ 52 * u"
    unfolding u_def by (simp add: power_int_diff)
  have pe1: "(2::rat) powi (e + 1) = 2 ^ 53 * u"
    unfolding u_def by (simp add: power_int_diff power_int_add)
  have pe2: "(2::rat) powi (e + 2) = 2 ^ 54 * u"
    unfolding u_def by (simp add: power_int_diff power_int_add)
  have qb': "2 ^ 52 * u \<le> \<bar>q\<bar>" "\<bar>q\<bar> < 2 ^ 53 * u"
    using qb by (simp_all only: pe pe1)
  have lo: "2 ^ 52 \<le> \<bar>q / u\<bar>" and hi: "\<bar>q / u\<bar> < 2 ^ 53"
    using qb' u0 by (simp_all add: field_simps)
  have err: "\<bar>of_int m - q / u\<bar> \<le> 1 / 2"
    unfolding m_def by (rule round_half_even_error)
  have "\<bar>(of_int m :: rat)\<bar> \<ge> \<bar>q / u\<bar> - 1 / 2" using err by linarith
  then have "(of_int \<bar>m\<bar> :: rat) > of_int (2 ^ 52 - 1)" using lo by simp
  then have "2 ^ 52 - 1 < \<bar>m\<bar>" by (simp only: of_int_less_iff)
  then have mlo: "2 ^ 52 \<le> \<bar>m\<bar>" by linarith
  have "\<bar>(of_int m :: rat)\<bar> \<le> \<bar>q / u\<bar> + 1 / 2" using err by linarith
  then have "(of_int \<bar>m\<bar> :: rat) < of_int (2 ^ 53 + 1)" using hi by simp
  then have "\<bar>m\<bar> < 2 ^ 53 + 1" by (simp only: of_int_less_iff)
  then have mhi: "\<bar>m\<bar> \<le> 2 ^ 53" by linarith
  have absr: "\<bar>r\<bar> = of_int \<bar>m\<bar> * u" using u0 by (simp add: r abs_mult)
  have r0: "r \<noteq> 0" using mlo u0 by (auto simp: r)
  have rpos: "0 < \<bar>r\<bar>" using r0 by simp
  show ?thesis
  proof (cases "\<bar>m\<bar> = 2 ^ 53")
    case False
    with mhi have "\<bar>m\<bar> < 2 ^ 53" by simp
    then have "(of_int \<bar>m\<bar> :: rat) < of_int (2 ^ 53)" by (simp only: of_int_less_iff)
    then have "\<bar>r\<bar> < 2 ^ 53 * u" using u0 by (simp add: absr)
    then have "\<bar>r\<bar> < 2 powi (e + 1)" by (simp only: pe1)
    moreover have "(of_int (2 ^ 52) :: rat) \<le> of_int \<bar>m\<bar>" using mlo by (simp only: of_int_le_iff)
    then have "2 ^ 52 * u \<le> \<bar>r\<bar>" using u0 by (simp add: absr)
    then have "2 powi e \<le> \<bar>r\<bar>" by (simp only: pe)
    ultimately have "ilog2 \<bar>r\<bar> = e" using rpos by (intro ilog2_unique) simp_all
    then have "quantum r = u" using e by (simp add: quantum_def u_def e_def max_def)
    then have qr: "quantum r = u" .
    have "r = of_int m * quantum r" unfolding qr by (simp add: r)
    with r0 rlt show ?thesis by (rule to_double_on_grid)
  next
    case True
    then have "(of_int \<bar>m\<bar> :: rat) = 2 ^ 53" by simp
    then have ar': "\<bar>r\<bar> = 2 ^ 53 * u" by (simp add: absr)
    then have ar: "\<bar>r\<bar> = 2 powi (e + 1)" by (simp only: pe1)
    have "\<bar>r\<bar> < 2 ^ 54 * u" using u0 by (simp add: ar')
    then have "\<bar>r\<bar> < 2 powi (e + 1 + 1)" using pe2 by (simp add: add.assoc)
    then have "ilog2 \<bar>r\<bar> = e + 1"
      using rpos ar by (intro ilog2_unique) simp_all
    then have qr: "quantum r = 2 * u"
      using e by (simp add: quantum_def u_def e_def max_def power_int_diff power_int_add)
    have "even m" using True by (metis even_abs_add_iff even_add even_numeral even_power zero_less_numeral)
    then obtain k where k: "m = 2 * k" by (auto elim: evenE)
    have "r = of_int k * quantum r" unfolding qr by (simp add: r k)
    with r0 rlt show ?thesis by (rule to_double_on_grid)
  qed
qed

lemma to_double_large_is_int:
  assumes fin: "to_double s q = Finite r" and q0: "q \<noteq> 0" and e: "52 \<le> ilog2 \<bar>q\<bar>"
  shows "\<exists>k::int. r = of_int k"
proof -
  have qu: "quantum q = 2 ^ nat (ilog2 \<bar>q\<bar> - 52)"
    using e by (simp add: quantum_def max_def power_int_def)
  have "r = of_int (round_half_even (q / quantum q)) * quantum q"
    using to_double_Finite_D [OF fin q0] by simp
  then have "r = of_int (round_half_even (q / quantum q) * 2 ^ nat (ilog2 \<bar>q\<bar> - 52))"
    by (simp add: qu)
  then show ?thesis ..
qed

lemma signed_zero_rounded: "is_rounded (signed_zero s)"
proof -
  have "to_double s 0 = signed_zero s" by (simp add: to_double_def)
  then show ?thesis by (metis is_rounded.intros(4))
qed

lemma signed_inf_rounded: "is_rounded (signed_inf s)"
  by (simp add: signed_inf_def is_rounded.intros)

lemma fadd_rounded: "is_rounded (fadd x y)"
  by (auto simp: fadd_def is_inf_def intro: is_rounded.intros)

lemma fsub_rounded: "is_rounded (fsub x y)"
  by (simp add: fsub_def fadd_rounded)

lemma fmul_rounded: "is_rounded (fmul x y)"
  by (auto simp: fmul_def intro: is_rounded.intros signed_inf_rounded)

lemma fdiv_rounded: "fdiv x y = Inr z \<Longrightarrow> is_rounded z"
  by (auto simp: fdiv_def split: if_splits
      intro: is_rounded.intros signed_inf_rounded signed_zero_rounded)

lemma round_decimal_error:
  "\<bar>of_int (round_half_even (r * 10 ^ n)) / 10 ^ n - r\<bar> \<le> 1 / 2"
proof -
  have p: "(0::rat) < 10 ^ n" by simp
  have p1: "(1::rat) \<le> 10 ^ n" by (rule one_le_power) simp
  have "of_int (round_half_even (r * 10 ^ n)) / 10 ^ n - r =
      (of_int (round_half_even (r * 10 ^ n)) - r * 10 ^ n) / 10 ^ n"
    by (simp add: diff_divide_distrib)
  then have "\<bar>of_int (round_half_even (r * 10 ^ n)) / 10 ^ n - r\<bar> =
      \<bar>of_int (round_half_even (r * 10 ^ n)) - r * 10 ^ n\<bar> / 10 ^ n"
    by (simp only: abs_divide) simp
  also have "\<dots> \<le> (1 / 2) / 10 ^ n"
    using round_half_even_error [of "r * 10 ^ n"] p by (intro divide_right_mono) simp_all
  also have "\<dots> \<le> (1 / 2) / 1"
    using p1 by (intro divide_left_mono) simp_all
  finally show ?thesis by simp
qed

lemma py_round_to_double:
  "\<exists>w. py_round (FloatV (to_double s q)) n = Inr (FloatV w) \<and> is_rounded w"
proof (cases "to_double s q")
  case (Finite r)
  show ?thesis
  proof (cases "323 < n")
    case True
    then have "py_round (FloatV (to_double s q)) n = Inr (FloatV (to_double s q))"
      by (simp add: py_round_def Finite)
    then show ?thesis by (metis is_rounded.intros(4))
  next
    case False
    let ?y = "of_int (round_half_even (r * 10 ^ n)) / 10 ^ n :: rat"
    have yr: "\<bar>?y - r\<bar> \<le> 1 / 2" by (rule round_decimal_error)
    have fin: "\<not> is_inf (to_double (r < 0) ?y)"
    proof (cases "q = 0")
      case True
      then have "r = 0" using Finite by (simp add: to_double_def signed_zero_def split: if_splits)
      then have "\<bar>?y\<bar> \<le> 1 / 2" using yr by simp
      also have "\<dots> < 2 ^ 1023" by simp
      finally show ?thesis by (rule to_double_finite)
    next
      case q0: False
      show ?thesis
      proof (cases "ilog2 \<bar>q\<bar> < 1022")
        case True
        have qpos: "0 < \<bar>q\<bar>" using q0 by simp
        from ilog2_bounds [OF qpos] have "\<bar>q\<bar> < 2 powi (ilog2 \<bar>q\<bar> + 1)" by simp
        also have "\<dots> \<le> 2 powi 1022" using True by (intro power_int_increasing) simp_all
        finally have qlt: "\<bar>q\<bar> < 2 powi 1022" .
        then have "quantum q \<le> 2 powi (1022 - 53)" using q0 by (intro quantum_le) simp_all
        then have u: "quantum q \<le> 2 ^ 969" by simp
        have qlt': "\<bar>q\<bar> < 2 ^ 1022" using qlt by simp
        have r: "r = of_int (round_half_even (q / quantum q)) * quantum q"
          using to_double_Finite_D [OF Finite q0] by simp
        have "\<bar>r - q\<bar> \<le> quantum q / 2" unfolding r by (rule to_double_error)
        then have "\<bar>r\<bar> \<le> \<bar>q\<bar> + quantum q / 2" by linarith
        then have "\<bar>r\<bar> < 2 ^ 1022 + 2 ^ 969 / 2" using qlt' u by linarith
        then have "\<bar>?y\<bar> < 2 ^ 1022 + 2 ^ 969 / 2 + 1 / 2" using yr by linarith
        also have "\<dots> < 2 ^ 1023" by simp
        finally show ?thesis by (rule to_double_finite)
      next
        case False
        then have big: "1022 \<le> ilog2 \<bar>q\<bar>" by simp
        then have "52 \<le> ilog2 \<bar>q\<bar>" by simp
        from to_double_large_is_int [OF Finite q0 this] obtain k :: int where k: "r = of_int k"
          by blast
        have "r * 10 ^ n = of_int (k * 10 ^ n)" by (simp add: k)
        then have "round_half_even (r * 10 ^ n) = k * 10 ^ n"
          by (simp only: round_half_even_of_int)
        then have "?y = r" by (simp add: k)
        moreover have "to_double (r < 0) r = Finite r"
          using big by (intro to_double_fixed [OF Finite q0]) simp
        ultimately show ?thesis by (simp add: is_inf_def)
      qed
    qed
    have "py_round (FloatV (to_double s q)) n = Inr (FloatV (to_double (r < 0) ?y))"
      using False fin by (simp add: py_round_def Finite ebind_def finite_or_overflow_def)
    then show ?thesis by (metis is_rounded.intros(4))
  qed
qed (auto simp: py_round_def intro: is_rounded.intros signed_zero_rounded [of True, unfolded signed_zero_def, simplified])

lemma py_round_rounded:
  assumes "is_rounded x"
  shows "\<exists>w. py_round (FloatV x) n = Inr (FloatV w) \<and> is_rounded w"
  using assms
proof cases
  case (4 s q)
  then show ?thesis using py_round_to_double by simp
qed (auto simp: py_round_def intro: is_rounded.intros)

section \<open>No exception within the range of binary64\<close>

text \<open>
  \<^verbatim>\<open>OverflowError\<close> needs an integer field of magnitude \<open>2\<^sup>1\<^sup>0\<^sup>2\<^sup>3\<close> or more.  Below that
  bound the derived metrics, the score, \<open>predict_outcome\<close> and \<open>compare_teams\<close> all return
  normally.
\<close>

lemma int_to_float_total:
  assumes "\<bar>i\<bar> < 2 ^ 1023"
  shows "\<exists>x. int_to_float i = Inr x \<and> is_rounded x"
proof -
  have "(of_int \<bar>i\<bar> :: rat) < of_int (2 ^ 1023)" using assms by (simp only: of_int_less_iff)
  then have "\<bar>of_int i :: rat\<bar> < 2 ^ 1023" by simp
  then have "\<not> is_inf (to_double False (of_int i))" by (rule to_double_finite)
  then show ?thesis
    by (auto simp: int_to_float_def finite_or_overflow_def intro: is_rounded.intros)
qed

lemma as_float_total:
  assumes "\<forall>i. a = IntV i \<longrightarrow> \<bar>i\<bar> < 2 ^ 1023"
  shows "\<exists>x. as_float a = Inr x"
  using assms int_to_float_total by (cases a) (auto simp: as_float_def)

lemma float_binop_total:
  assumes "\<forall>i. a = IntV i \<longrightarrow> \<bar>i\<bar> < 2 ^ 1023" and "\<forall>i. b = IntV i \<longrightarrow> \<bar>i\<bar> < 2 ^ 1023"
  shows "\<exists>x y. float_binop f a b = Inr (FloatV (f x y))"
proof -
  from as_float_total [OF assms(1)] obtain x where x: "as_float a = Inr x" by blast
  from as_float_total [OF assms(2)] obtain y where y: "as_float b = Inr y" by blast
  have "float_binop f a b = Inr (FloatV (f x y))"
    by (simp add: float_binop_def ebind_def x y)
  then show ?thesis by blast
qed

lemma py_add_total:
  assumes "\<forall>i. a = IntV i \<longrightarrow> \<bar>i\<bar> < 2 ^ 1023" and "\<forall>i. b = IntV i \<longrightarrow> \<bar>i\<bar> < 2 ^ 1023"
    and "(\<exists>x. a = FloatV x) \<or> (\<exists>x. b = FloatV x)"
  shows "\<exists>z. py_add a b = Inr (FloatV z) \<and> is_rounded z"
  using float_binop_total [OF assms(1,2), of fadd] assms(3)
  by (auto simp: py_add_def fadd_rounded split: pyval.splits)

lemma py_sub_total:
  assumes "\<forall>i. a = IntV i \<longrightarrow> \<bar>i\<bar> < 2 ^ 1023" and "\<forall>i. b = IntV i \<longrightarrow> \<bar>i\<bar> < 2 ^ 1023"
    and "(\<exists>x. a = FloatV x) \<or> (\<exists>x. b = FloatV x)"
  shows "\<exists>z. py_sub a b = Inr (FloatV z) \<and> is_rounded z"
  using float_binop_total [OF assms(1,2), of fsub] assms(3)
  by (auto simp: py_sub_def fsub_rounded split: pyval.splits)

lemma py_mul_total:
  assumes "\<forall>i. a = IntV i \<longrightarrow> \<bar>i\<bar> < 2 ^ 1023" and "\<forall>i. b = IntV i \<longrightarrow> \<bar>i\<bar> < 2 ^ 1023"
    and "(\<exists>x. a = FloatV x) \<or> (\<exists>x. b = FloatV x)"
  shows "\<exists>z. py_mul a b = Inr (FloatV z) \<and> is_rounded z"
  using float_binop_total [OF assms(1,2), of fmul] assms(3)
  by (auto simp: py_mul_def fmul_rounded split: pyval.splits)

lemma int_truediv_total:
  assumes "j \<noteq> 0" and "\<bar>i\<bar> < 2 ^ 1023"
  shows "\<exists>x. int_truediv i j = Inr (FloatV x) \<and> is_rounded x"
proof -
  have "(1::rat) \<le> \<bar>of_int j\<bar>" using assms(1)
    by (metis abs_ge_zero less_le of_int_0_eq_iff of_int_1 of_int_abs of_int_le_iff zabs_less_one_iff linorder_not_less)
  then have "\<bar>of_int i / of_int j :: rat\<bar> \<le> \<bar>of_int i\<bar>"
    by (simp add: field_simps mult_left_mono mult_le_cancel_left1)
  moreover have "(of_int \<bar>i\<bar> :: rat) < of_int (2 ^ 1023)" using assms(2) by (simp only: of_int_less_iff)
  ultimately have "\<bar>of_int i / of_int j :: rat\<bar> < 2 ^ 1023" by simp
  then have "\<not> is_inf (to_double ((i < 0) \<noteq> (j < 0)) (of_int i / of_int j))"
    by (rule to_double_finite)
  then show ?thesis using assms(1)
    by (auto simp: int_truediv_def finite_or_overflow_def ebind_def intro: is_rounded.intros)
qed

lemma ratio_total:
  assumes "\<bar>i\<bar> < 2 ^ 1023"
  shows "(if j = 0 then Inr (IntV 0)
          else ebind (py_truediv (IntV i) (IntV j)) (\<lambda>q. py_round q 2)) = Inr (IntV 0) \<or>
    (\<exists>x. (if j = 0 then Inr (IntV 0)
          else ebind (py_truediv (IntV i) (IntV j)) (\<lambda>q. py_round q 2)) = Inr (FloatV x) \<and>
       is_rounded x)"
proof (cases "j = 0")
  case False
  from int_truediv_total [OF False assms] obtain x where
    x: "int_truediv i j = Inr (FloatV x)" "is_rounded x" by blast
  from py_round_rounded [OF x(2), of 2] obtain w where
    "py_round (FloatV x) 2 = Inr (FloatV w)" "is_rounded w" by blast
  then show ?thesis using False x by (simp add: py_truediv_def ebind_def)
qed simp

lemma avg_goals_per_match_total:
  assumes "\<bar>goals_for t\<bar> < 2 ^ 1023"
  shows "avg_goals_per_match t = Inr (IntV 0) \<or>
    (\<exists>x. avg_goals_per_match t = Inr (FloatV x) \<and> is_rounded x)"
  unfolding avg_goals_per_match_def by (rule ratio_total [OF assms])

lemma defense_strength_total:
  assumes "\<bar>goals_against t\<bar> < 2 ^ 1023"
  shows "defense_strength t = Inr (IntV 0) \<or>
    (\<exists>x. defense_strength t = Inr (FloatV x) \<and> is_rounded x)"
  unfolding defense_strength_def by (rule ratio_total [OF assms])

lemma win_percentage_total:
  assumes "\<bar>wins t\<bar> < 2 ^ 1023"
  shows "win_percentage t = Inr (IntV 0) \<or>
    (\<exists>x. win_percentage t = Inr (FloatV x) \<and> is_rounded x)"
proof (cases "matches_played t = 0")
  case False
  from int_truediv_total [OF False assms] obtain x where
    x: "int_truediv (wins t) (matches_played t) = Inr (FloatV x)" by blast
  have "\<exists>z. py_mul (FloatV x) (IntV 100) = Inr (FloatV z) \<and> is_rounded z"
    by (rule py_mul_total) simp_all
  then obtain z where z: "py_mul (FloatV x) (IntV 100) = Inr (FloatV z)" "is_rounded z" by blast
  from py_round_rounded [OF z(2), of 2] obtain w where
    "py_round (FloatV z) 2 = Inr (FloatV w)" "is_rounded w" by blast
  then show ?thesis using False x z by (simp add: win_percentage_def py_truediv_def ebind_def)
qed (simp add: win_percentage_def)

lemma team_score_total:
  assumes "\<bar>11 - fifa_rank t\<bar> < 2 ^ 1023" and "\<bar>goals_for t\<bar> < 2 ^ 1023"
    and "\<bar>goals_against t\<bar> < 2 ^ 1023"
  shows "\<exists>x. team_score t = Inr (FloatV x) \<and> is_rounded x"
proof -
  have "\<exists>z. py_mul (IntV (11 - fifa_rank t)) (float_lit (3 / 10)) = Inr (FloatV z) \<and> is_rounded z"
    using assms(1) by (intro py_mul_total) (simp_all add: float_lit_def)
  then obtain rk where rk: "py_mul (IntV (11 - fifa_rank t)) (float_lit (3 / 10)) = Inr (FloatV rk)"
    by blast
  from avg_goals_per_match_total [OF assms(2)] obtain avg where
    avg: "avg_goals_per_match t = Inr avg" "avg = IntV 0 \<or> (\<exists>x. avg = FloatV x)"
    by blast
  have "\<exists>off. py_mul avg (IntV 2) = Inr off \<and> (off = IntV 0 \<or> (\<exists>x. off = FloatV x))"
  proof (cases avg)
    case (IntV i)
    then show ?thesis using avg(2) by (simp add: py_mul_def)
  next
    case (FloatV x)
    have "\<exists>z. py_mul avg (IntV 2) = Inr (FloatV z) \<and> is_rounded z"
      by (rule py_mul_total) (simp_all add: FloatV)
    then show ?thesis by blast
  qed
  then obtain off where off: "py_mul avg (IntV 2) = Inr off" "off = IntV 0 \<or> (\<exists>x. off = FloatV x)"
    by blast
  have "\<exists>z. py_add (FloatV rk) off = Inr (FloatV z) \<and> is_rounded z"
    using off(2) by (intro py_add_total) auto
  then obtain acc where acc: "py_add (FloatV rk) off = Inr (FloatV acc)" by blast
  from defense_strength_total [OF assms(3)] obtain df where
    df: "defense_strength t = Inr df" "df = IntV 0 \<or> (\<exists>x. df = FloatV x)"
    by blast
  have "\<exists>mg. py_sub (IntV 2) df = Inr mg \<and> (mg = IntV 2 \<or> (\<exists>x. mg = FloatV x))"
  proof (cases df)
    case (IntV i)
    then show ?thesis using df(2) by (simp add: py_sub_def)
  next
    case (FloatV x)
    have "\<exists>z. py_sub (IntV 2) df = Inr (FloatV z) \<and> is_rounded z"
      by (rule py_sub_total) (simp_all add: FloatV)
    then show ?thesis by blast
  qed
  then obtain mg where mg: "py_sub (IntV 2) df = Inr mg" "mg = IntV 2 \<or> (\<exists>x. mg = FloatV x)"
    by blast
  have "\<exists>z. py_mul mg (float_lit (3 / 2)) = Inr (FloatV z) \<and> is_rounded z"
    using mg(2) by (intro py_mul_total) (auto simp: float_lit_def)
  then obtain dv where dv: "py_mul mg (float_lit (3 / 2)) = Inr (FloatV dv)" by blast
  have "\<exists>z. py_add (FloatV acc) (FloatV dv) = Inr (FloatV z) \<and> is_rounded z"
    by (rule py_add_total) simp_all
  then show ?thesis
    using rk avg(1) off(1) acc df(1) mg(1) dv by (simp add: team_score_def ebind_def)
qed

lemma py_round_total:
  assumes "\<forall>x. v = FloatV x \<longrightarrow> is_rounded x"
  shows "\<exists>w. py_round v n = Inr w"
proof (cases v)
  case (IntV i)
  then show ?thesis by (simp add: py_round_def)
next
  case (FloatV x)
  with assms have "is_rounded x" by simp
  from py_round_rounded [OF this, of n] show ?thesis using FloatV by blast
qed

lemma team1_win_prob_total:
  "\<exists>p. team1_win_prob (FloatV x) (FloatV y) = Inr p \<and>
     (p = IntV 50 \<or> (\<exists>z. p = FloatV z \<and> is_rounded z))"
proof (cases "py_gt (FloatV y) (IntV 0)")
  case True
  then have "\<not> is_zero y"
    by (cases y) (auto simp: py_gt_def py_lt_def ext_val_def is_zero_def)
  then have "\<exists>z. fdiv x y = Inr z"
    by (simp add: fdiv_def)
  then obtain z where z: "fdiv x y = Inr z" by blast
  have "\<exists>w. py_mul (FloatV z) (IntV 100) = Inr (FloatV w) \<and> is_rounded w"
    by (rule py_mul_total) simp_all
  then obtain w where "py_mul (FloatV z) (IntV 100) = Inr (FloatV w)" "is_rounded w" by blast
  then show ?thesis using True z
    by (simp add: team1_win_prob_def py_truediv_def as_float_def ebind_def)
next
  case False
  then show ?thesis by (simp add: team1_win_prob_def)
qed

lemma team2_win_prob_total:
  assumes "p = IntV 50 \<or> (\<exists>z. p = FloatV z)"
  shows "\<exists>p'. team2_win_prob p = Inr p' \<and> (\<forall>x. p' = FloatV x \<longrightarrow> is_rounded x)"
proof (cases p)
  case (IntV i)
  then show ?thesis by (simp add: team2_win_prob_def py_sub_def)
next
  case (FloatV z)
  have "\<exists>w. py_sub (IntV 100) p = Inr (FloatV w) \<and> is_rounded w"
    by (rule py_sub_total) (simp_all add: FloatV)
  then show ?thesis by (auto simp: team2_win_prob_def)
qed

text \<open>
  For integers in the range of binary64 nothing is raised: \<open>predict_outcome\<close> returns its
  result dictionary for any two teams present.
\<close>

lemma predict_outcome_returns:
  assumes "get_team a n1 = Some t1" and "get_team a n2 = Some t2"
    and "\<bar>11 - fifa_rank t1\<bar> < 2 ^ 1023" and "\<bar>goals_for t1\<bar> < 2 ^ 1023"
    and "\<bar>goals_against t1\<bar> < 2 ^ 1023"
    and "\<bar>11 - fifa_rank t2\<bar> < 2 ^ 1023" and "\<bar>goals_for t2\<bar> < 2 ^ 1023"
    and "\<bar>goals_against t2\<bar> < 2 ^ 1023"
  shows "\<exists>p. predict_outcome a n1 n2 = Inr (Result p)"
proof -
  from team_score_total [OF assms(3,4,5)] obtain x1 where s1: "team_score t1 = Inr (FloatV x1)"
    by blast
  from team_score_total [OF assms(6,7,8)] obtain x2 where s2: "team_score t2 = Inr (FloatV x2)"
    by blast
  have "\<exists>z. py_add (FloatV x1) (FloatV x2) = Inr (FloatV z) \<and> is_rounded z"
    by (rule py_add_total) simp_all
  then obtain tt where tt: "total_of (FloatV x1) (FloatV x2) = Inr (FloatV tt)"
    by (auto simp: total_of_def)
  from team1_win_prob_total [of x1 tt] obtain p1 where
    p1: "team1_win_prob (FloatV x1) (FloatV tt) = Inr p1"
      "p1 = IntV 50 \<or> (\<exists>z. p1 = FloatV z \<and> is_rounded z)"
    by blast
  from p1(2) have "p1 = IntV 50 \<or> (\<exists>z. p1 = FloatV z)" by blast
  from team2_win_prob_total [OF this] obtain p2 where
    p2: "team2_win_prob p1 = Inr p2" "\<forall>x. p2 = FloatV x \<longrightarrow> is_rounded x"
    by blast
  from p1(2) have "\<forall>x. p1 = FloatV x \<longrightarrow> is_rounded x" by auto
  from py_round_total [OF this, of 1] obtain r1 where r1: "py_round p1 1 = Inr r1" by blast
  from py_round_total [OF p2(2), of 1] obtain r2 where r2: "py_round p2 1 = Inr r2" by blast
  from avg_goals_per_match_total [OF assms(4)] obtain a1 where
    a1: "avg_goals_per_match t1 = Inr a1" "\<forall>x. a1 = FloatV x \<longrightarrow> is_rounded x"
    by auto
  from py_round_total [OF a1(2), of 1] obtain g1 where g1: "py_round a1 1 = Inr g1" by blast
  from avg_goals_per_match_total [OF assms(7)] obtain a2 where
    a2: "avg_goals_per_match t2 = Inr a2" "\<forall>x. a2 = FloatV x \<longrightarrow> is_rounded x"
    by auto
  from py_round_total [OF a2(2), of 1] obtain g2 where g2: "py_round a2 1 = Inr g2" by blast
  show ?thesis
    using r1 r2 g1 g2
    by (simp add: predict_outcome_def assms(1,2) s1 s2 tt p1(1) p2(1) a1(1) a2(1) ebind_def)
qed

lemma compare_teams_returns:
  assumes "get_team a n1 = Some t1" and "get_team a n2 = Some t2"
    and "\<bar>goals_for t1\<bar> < 2 ^ 1023" and "\<bar>goals_against t1\<bar> < 2 ^ 1023"
    and "\<bar>wins t1\<bar> < 2 ^ 1023"
    and "\<bar>goals_for t2\<bar> < 2 ^ 1023" and "\<bar>goals_against t2\<bar> < 2 ^ 1023"
    and "\<bar>wins t2\<bar> < 2 ^ 1023"
  shows "\<exists>c. compare_teams a n1 n2 = Inr (Result c)"
proof -
  from avg_goals_per_match_total [OF assms(3)] obtain o1 where
    o1: "avg_goals_per_match t1 = Inr o1" by blast
  from avg_goals_per_match_total [OF assms(6)] obtain o2 where
    o2: "avg_goals_per_match t2 = Inr o2" by blast
  from defense_strength_total [OF assms(4)] obtain d1 where
    d1: "defense_strength t1 = Inr d1" by blast
  from defense_strength_total [OF assms(7)] obtain d2 where
    d2: "defense_strength t2 = Inr d2" by blast
  from win_percentage_total [OF assms(5)] obtain w1 where
    w1: "win_percentage t1 = Inr w1" by blast
  from win_percentage_total [OF assms(8)] obtain w2 where
    w2: "win_percentage t2 = Inr w2" by blast
  show ?thesis
    by (simp add: compare_teams_def assms(1,2) o1 o2 d1 d2 w1 w2 ebind_def)
qed

section \<open>The prediction formula and the comparison, within the range of binary64\<close>

lemma main_bounds:
  "\<bar>11 - fifa_rank ivory_coast\<bar> < 2 ^ 1023" "\<bar>goals_for ivory_coast\<bar> < 2 ^ 1023"
  "\<bar>goals_against ivory_coast\<bar> < 2 ^ 1023" "\<bar>wins ivory_coast\<bar> < 2 ^ 1023"
  "\<bar>11 - fifa_rank cameroon\<bar> < 2 ^ 1023" "\<bar>goals_for cameroon\<bar> < 2 ^ 1023"
  "\<bar>goals_against cameroon\<bar> < 2 ^ 1023" "\<bar>wins cameroon\<bar> < 2 ^ 1023"
  "\<bar>11 - fifa_rank mozambique\<bar> < 2 ^ 1023" "\<bar>goals_for mozambique\<bar> < 2 ^ 1023"
  "\<bar>goals_against mozambique\<bar> < 2 ^ 1023" "\<bar>wins mozambique\<bar> < 2 ^ 1023"
  by (simp_all add: data_eval)

text \<open>
  Claim C3.  For two names present in the team mapping (integer fields within the range
  of binary64), \<open>predict_outcome\<close> returns, and it computes each team's composite score as
  \<open>(11 \<minus> rank) \<times> 0.3 + avg_goals_per_match \<times> 2 + (2 \<minus> defense_strength) \<times> 1.5\<close> from the
  team's rank and derived metrics; the first team's win probability is its score divided
  by the sum of the two scores, times 100, when the sum is strictly positive, and exactly
  50 when the sum is at most 0 (and whenever it is not strictly positive); the second
  probability is 100 minus the first, and the returned entries are the two probabilities
  and the two goal averages, each rounded to one decimal.
\<close>

theorem predict_outcome_formula:
  assumes "get_team a n1 = Some t1" and "get_team a n2 = Some t2"
    and "\<bar>11 - fifa_rank t1\<bar> < 2 ^ 1023" and "\<bar>goals_for t1\<bar> < 2 ^ 1023"
    and "\<bar>goals_against t1\<bar> < 2 ^ 1023"
    and "\<bar>11 - fifa_rank t2\<bar> < 2 ^ 1023" and "\<bar>goals_for t2\<bar> < 2 ^ 1023"
    and "\<bar>goals_against t2\<bar> < 2 ^ 1023"
  shows "\<exists>avg1 def1 avg2 def2 s1 s2 total p1 p2 r1 r2 g1 g2.
       avg_goals_per_match t1 = Inr avg1 \<and> defense_strength t1 = Inr def1 \<and>
       avg_goals_per_match t2 = Inr avg2 \<and> defense_strength t2 = Inr def2 \<and>
       spec_composite_score (fifa_rank t1) avg1 def1 = Inr s1 \<and>
       spec_composite_score (fifa_rank t2) avg2 def2 = Inr s2 \<and>
       py_add s1 s2 = Inr total \<and>
       (py_gt total (IntV 0) \<longrightarrow>
          (\<exists>share. py_truediv s1 total = Inr share \<and> py_mul share (IntV 100) = Inr p1)) \<and>
       (py_le total (IntV 0) \<longrightarrow> p1 = IntV 50) \<and>
       (\<not> py_gt total (IntV 0) \<longrightarrow> p1 = IntV 50) \<and>
       py_sub (IntV 100) p1 = Inr p2 \<and>
       py_round p1 1 = Inr r1 \<and> py_round p2 1 = Inr r2 \<and>
       py_round avg1 1 = Inr g1 \<and> py_round avg2 1 = Inr g2 \<and>
       predict_outcome a n1 n2 = Inr (Result
         \<lparr>p_match = n1 @ '' vs '' @ n2,
          p_prediction = dict2 n1 (FStr r1 ''%'') n2 (FStr r2 ''%''),
          p_estimated_goals = dict2 n1 g1 n2 g2\<rparr>)"
proof -
  from predict_outcome_returns [OF assms] obtain p where
    ret: "predict_outcome a n1 n2 = Inr (Result p)" by blast
  from ret assms(1,2) obtain s1 s2 total p1 p2 r1 r2 avg1 g1 avg2 g2 where
    s1: "team_score t1 = Inr s1" and s2: "team_score t2 = Inr s2" and
    tot: "py_add s1 s2 = Inr total" and
    p1: "team1_win_prob s1 total = Inr p1" and
    p2: "py_sub (IntV 100) p1 = Inr p2" and
    r1: "py_round p1 1 = Inr r1" and r2: "py_round p2 1 = Inr r2" and
    a1: "avg_goals_per_match t1 = Inr avg1" and g1: "py_round avg1 1 = Inr g1" and
    a2: "avg_goals_per_match t2 = Inr avg2" and g2: "py_round avg2 1 = Inr g2" and
    p: "p = \<lparr>p_match = n1 @ '' vs '' @ n2,
          p_prediction = dict2 n1 (FStr r1 ''%'') n2 (FStr r2 ''%''),
          p_estimated_goals = dict2 n1 g1 n2 g2\<rparr>"
    unfolding predict_outcome_def
    by (auto simp: ebind_Inr_iff total_of_def team2_win_prob_def)
  from s1 a1 obtain d1 where m1: "defense_strength t1 = Inr d1"
      "spec_composite_score (fifa_rank t1) avg1 d1 = Inr s1"
    unfolding team_score_spec by auto
  from s2 a2 obtain d2 where m2: "defense_strength t2 = Inr d2"
      "spec_composite_score (fifa_rank t2) avg2 d2 = Inr s2"
    unfolding team_score_spec by auto
  have gt: "py_gt total (IntV 0) \<longrightarrow>
      (\<exists>share. py_truediv s1 total = Inr share \<and> py_mul share (IntV 100) = Inr p1)"
    using p1 by (auto simp: team1_win_prob_def ebind_Inr_iff)
  have ngt: "\<not> py_gt total (IntV 0) \<longrightarrow> p1 = IntV 50"
    using p1 by (auto simp: team1_win_prob_def)
  have le: "py_le total (IntV 0) \<longrightarrow> p1 = IntV 50"
    using ngt by (auto dest: py_le_not_gt)
  show ?thesis
    using a1 m1 a2 m2 tot gt le ngt p2 r1 r2 g1 g2 ret p by blast
qed

theorem predict_outcome_formula_witness:
  "get_team main_analyzer ''Ivory Coast'' = Some ivory_coast \<and>
   get_team main_analyzer ''Cameroon'' = Some cameroon \<and>
   \<bar>11 - fifa_rank ivory_coast\<bar> < 2 ^ 1023 \<and> \<bar>goals_for ivory_coast\<bar> < 2 ^ 1023 \<and>
   \<bar>goals_against ivory_coast\<bar> < 2 ^ 1023 \<and>
   \<bar>11 - fifa_rank cameroon\<bar> < 2 ^ 1023 \<and> \<bar>goals_for cameroon\<bar> < 2 ^ 1023 \<and>
   \<bar>goals_against cameroon\<bar> < 2 ^ 1023 \<and>
   (\<exists>avg1 def1 avg2 def2 s1 s2 total p1 p2 r1 r2 g1 g2.
       avg_goals_per_match ivory_coast = Inr avg1 \<and> defense_strength ivory_coast = Inr def1 \<and>
       avg_goals_per_match cameroon = Inr avg2 \<and> defense_strength cameroon = Inr def2 \<and>
       spec_composite_score (fifa_rank ivory_coast) avg1 def1 = Inr s1 \<and>
       spec_composite_score (fifa_rank cameroon) avg2 def2 = Inr s2 \<and>
       py_add s1 s2 = Inr total \<and>
       (py_gt total (IntV 0) \<longrightarrow>
          (\<exists>share. py_truediv s1 total = Inr share \<and> py_mul share (IntV 100) = Inr p1)) \<and>
       (py_le total (IntV 0) \<longrightarrow> p1 = IntV 50) \<and>
       (\<not> py_gt total (IntV 0) \<longrightarrow> p1 = IntV 50) \<and>
       py_sub (IntV 100) p1 = Inr p2 \<and>
       py_round p1 1 = Inr r1 \<and> py_round p2 1 = Inr r2 \<and>
       py_round avg1 1 = Inr g1 \<and> py_round avg2 1 = Inr g2 \<and>
       predict_outcome main_analyzer ''Ivory Coast'' ''Cameroon'' = Inr (Result
         \<lparr>p_match = ''Ivory Coast'' @ '' vs '' @ ''Cameroon'',
          p_prediction = dict2 ''Ivory Coast'' (FStr r1 ''%'') ''Cameroon'' (FStr r2 ''%''),
          p_estimated_goals = dict2 ''Ivory Coast'' g1 ''Cameroon'' g2\<rparr>))"
  using predict_outcome_formula [OF get_main(1) get_main(3) main_bounds(1,2,3,5,6,7)]
    get_main(1) get_main(3) main_bounds(1,2,3,5,6,7)
  by (intro conjI)

text \<open>
  Claim C6.  For two names present in the team mapping (integer fields within the range
  of binary64), \<open>compare_teams a A B\<close> and \<open>compare_teams a B A\<close> both return, and they
  carry the same information with the labels swapped: in each of the seven per-team
  entries (ranks, points, goal difference, offensive power, defensive strength, win
  percentage, matches played) both results hold, under \<open>A\<close>, the value of the team named
  \<open>A\<close>, and under \<open>B\<close> the value of the team named \<open>B\<close>; and every name \<open>T\<close> is mapped to
  the same value by both results.
\<close>

theorem compare_teams_swap:
  assumes "get_team a A = Some ta" and "get_team a B = Some tb"
    and "\<bar>goals_for ta\<bar> < 2 ^ 1023" and "\<bar>goals_against ta\<bar> < 2 ^ 1023"
    and "\<bar>wins ta\<bar> < 2 ^ 1023"
    and "\<bar>goals_for tb\<bar> < 2 ^ 1023" and "\<bar>goals_against tb\<bar> < 2 ^ 1023"
    and "\<bar>wins tb\<bar> < 2 ^ 1023"
  shows "\<exists>c c' oa da wa ob db wb.
     compare_teams a A B = Inr (Result c) \<and> compare_teams a B A = Inr (Result c') \<and>
     avg_goals_per_match ta = Inr oa \<and> defense_strength ta = Inr da \<and>
     win_percentage ta = Inr wa \<and>
     avg_goals_per_match tb = Inr ob \<and> defense_strength tb = Inr db \<and>
     win_percentage tb = Inr wb \<and>
     map_of (c_fifa_ranks c) A = Some (fifa_rank ta) \<and>
     map_of (c_fifa_ranks c') A = Some (fifa_rank ta) \<and>
     map_of (c_fifa_ranks c) B = Some (fifa_rank tb) \<and>
     map_of (c_fifa_ranks c') B = Some (fifa_rank tb) \<and>
     map_of (c_points c) A = Some (points ta) \<and>
     map_of (c_points c') A = Some (points ta) \<and>
     map_of (c_points c) B = Some (points tb) \<and>
     map_of (c_points c') B = Some (points tb) \<and>
     map_of (c_goal_difference c) A = Some (goals_for ta - goals_against ta) \<and>
     map_of (c_goal_difference c') A = Some (goals_for ta - goals_against ta) \<and>
     map_of (c_goal_difference c) B = Some (goals_for tb - goals_against tb) \<and>
     map_of (c_goal_difference c') B = Some (goals_for tb - goals_against tb) \<and>
     map_of (c_offensive_power c) A = Some oa \<and>
     map_of (c_offensive_power c') A = Some oa \<and>
     map_of (c_offensive_power c) B = Some ob \<and>
     map_of (c_offensive_power c') B = Some ob \<and>
     map_of (c_defensive_strength c) A = Some (FStr da '' goals/match'') \<and>
     map_of (c_defensive_strength c') A = Some (FStr da '' goals/match'') \<and>
     map_of (c_defensive_strength c) B = Some (FStr db '' goals/match'') \<and>
     map_of (c_defensive_strength c') B = Some (FStr db '' goals/match'') \<and>
     map_of (c_win_percentage c) A = Some (FStr wa ''%'') \<and>
     map_of (c_win_percentage c') A = Some (FStr wa ''%'') \<and>
     map_of (c_win_percentage c) B = Some (FStr wb ''%'') \<and>
     map_of (c_win_percentage c') B = Some (FStr wb ''%'') \<and>
     map_of (c_recent_form c) A = Some (FStr (IntV (matches_played ta)) '' matches played'') \<and>
     map_of (c_recent_form c') A = Some (FStr (IntV (matches_played ta)) '' matches played'') \<and>
     map_of (c_recent_form c) B = Some (FStr (IntV (matches_played tb)) '' matches played'') \<and>
     map_of (c_recent_form c') B = Some (FStr (IntV (matches_played tb)) '' matches played'') \<and>
     map_of (c_fifa_ranks c) T = map_of (c_fifa_ranks c') T \<and>
     map_of (c_points c) T = map_of (c_points c') T \<and>
     map_of (c_goal_difference c) T = map_of (c_goal_difference c') T \<and>
     map_of (c_offensive_power c) T = map_of (c_offensive_power c') T \<and>
     map_of (c_defensive_strength c) T = map_of (c_defensive_strength c') T \<and>
     map_of (c_win_percentage c) T = map_of (c_win_percentage c') T \<and>
     map_of (c_recent_form c) T = map_of (c_recent_form c') T"
proof -
  have same: "A = B \<Longrightarrow> ta = tb" using assms(1,2) by simp
  from avg_goals_per_match_total [OF assms(3)] obtain oa where
    oa: "avg_goals_per_match ta = Inr oa" by blast
  from avg_goals_per_match_total [OF assms(6)] obtain ob where
    ob: "avg_goals_per_match tb = Inr ob" by blast
  from defense_strength_total [OF assms(4)] obtain da where
    da: "defense_strength ta = Inr da" by blast
  from defense_strength_total [OF assms(7)] obtain db where
    db: "defense_strength tb = Inr db" by blast
  from win_percentage_total [OF assms(5)] obtain wa where
    wa: "win_percentage ta = Inr wa" by blast
  from win_percentage_total [OF assms(8)] obtain wb where
    wb: "win_percentage tb = Inr wb" by blast
  have eqs: "A = B \<Longrightarrow> oa = ob \<and> da = db \<and> wa = wb"
    using same oa ob da db wa wb by auto
  show ?thesis
    using same eqs
    by (auto simp: compare_teams_def assms(1,2) oa ob da db wa wb ebind_def dict2_lookup
        goal_difference_def)
qed

theorem compare_teams_swap_witness:
  "get_team main_analyzer ''Ivory Coast'' = Some ivory_coast \<and>
   get_team main_analyzer ''Mozambique'' = Some mozambique \<and>
   \<bar>goals_for ivory_coast\<bar> < 2 ^ 1023 \<and> \<bar>goals_against ivory_coast\<bar> < 2 ^ 1023 \<and>
   \<bar>wins ivory_coast\<bar> < 2 ^ 1023 \<and>
   \<bar>goals_for mozambique\<bar> < 2 ^ 1023 \<and> \<bar>goals_against mozambique\<bar> < 2 ^ 1023 \<and>
   \<bar>wins mozambique\<bar> < 2 ^ 1023 \<and>
   (\<exists>c c' oa da wa ob db wb.
     compare_teams main_analyzer ''Ivory Coast'' ''Mozambique'' = Inr (Result c) \<and> compare_teams main_analyzer ''Mozambique'' ''Ivory Coast'' = Inr (Result c') \<and>
     avg_goals_per_match ivory_coast = Inr oa \<and> defense_strength ivory_coast = Inr da \<and>
     win_percentage ivory_coast = Inr wa \<and>
     avg_goals_per_match mozambique = Inr ob \<and> defense_strength mozambique = Inr db \<and>
     win_percentage mozambique = Inr wb \<and>
     map_of (c_fifa_ranks c) ''Ivory Coast'' = Some (fifa_rank ivory_coast) \<and>
     map_of (c_fifa_ranks c') ''Ivory Coast'' = Some (fifa_rank ivory_coast) \<and>
     map_of (c_fifa_ranks c) ''Mozambique'' = Some (fifa_rank mozambique) \<and>
     map_of (c_fifa_ranks c') ''Mozambique'' = Some (fifa_rank mozambique) \<and>
     map_of (c_points c) ''Ivory Coast'' = Some (points ivory_coast) \<and>
     map_of (c_points c') ''Ivory Coast'' = Some (points ivory_coast) \<and>
     map_of (c_points c) ''Mozambique'' = Some (points mozambique) \<and>
     map_of (c_points c') ''Mozambique'' = Some (points mozambique) \<and>
     map_of (c_goal_difference c) ''Ivory Coast'' = Some (goals_for ivory_coast - goals_against ivory_coast) \<and>
     map_of (c_goal_difference c') ''Ivory Coast'' = Some (goals_for ivory_coast - goals_against ivory_coast) \<and>
     map_of (c_goal_difference c) ''Mozambique'' = Some (goals_for mozambique - goals_against mozambique) \<and>
     map_of (c_goal_difference c') ''Mozambique'' = Some (goals_for mozambique - goals_against mozambique) \<and>
     map_of (c_offensive_power c) ''Ivory Coast'' = Some oa \<and>
     map_of (c_offensive_power c') ''Ivory Coast'' = Some oa \<and>
     map_of (c_offensive_power c) ''Mozambique'' = Some ob \<and>
     map_of (c_offensive_power c') ''Mozambique'' = Some ob \<and>
     map_of (c_defensive_strength c) ''Ivory Coast'' = Some (FStr da '' goals/match'') \<and>
     map_of (c_defensive_strength c') ''Ivory Coast'' = Some (FStr da '' goals/match'') \<and>
     map_of (c_defensive_strength c) ''Mozambique'' = Some (FStr db '' goals/match'') \<and>
     map_of (c_defensive_strength c') ''Mozambique'' = Some (FStr db '' goals/match'') \<and>
     map_of (c_win_percentage c) ''Ivory Coast'' = Some (FStr wa ''%'') \<and>
     map_of (c_win_percentage c') ''Ivory Coast'' = Some (FStr wa ''%'') \<and>
     map_of (c_win_percentage c) ''Mozambique'' = Some (FStr wb ''%'') \<and>
     map_of (c_win_percentage c') ''Mozambique'' = Some (FStr wb ''%'') \<and>
     map_of (c_recent_form c) ''Ivory Coast'' = Some (FStr (IntV (matches_played ivory_coast)) '' matches played'') \<and>
     map_of (c_recent_form c') ''Ivory Coast'' = Some (FStr (IntV (matches_played ivory_coast)) '' matches played'') \<and>
     map_of (c_recent_form c) ''Mozambique'' = Some (FStr (IntV (matches_played mozambique)) '' matches played'') \<and>
     map_of (c_recent_form c') ''Mozambique'' = Some (FStr (IntV (matches_played mozambique)) '' matches played'') \<and>
     map_of (c_fifa_ranks c) ''Ivory Coast'' = map_of (c_fifa_ranks c') ''Ivory Coast'' \<and>
     map_of (c_points c) ''Ivory Coast'' = map_of (c_points c') ''Ivory Coast'' \<and>
     map_of (c_goal_difference c) ''Ivory Coast'' = map_of (c_goal_difference c') ''Ivory Coast'' \<and>
     map_of (c_offensive_power c) ''Ivory Coast'' = map_of (c_offensive_power c') ''Ivory Coast'' \<and>
     map_of (c_defensive_strength c) ''Ivory Coast'' = map_of (c_defensive_strength c') ''Ivory Coast'' \<and>
     map_of (c_win_percentage c) ''Ivory Coast'' = map_of (c_win_percentage c') ''Ivory Coast'' \<and>
     map_of (c_recent_form c) ''Ivory Coast'' = map_of (c_recent_form c') ''Ivory Coast'')"
  using compare_teams_swap [OF get_main(1) get_main(2) main_bounds(2,3,4,10,11,12),
      of "''Ivory Coast''"]
    get_main(1) get_main(2) main_bounds(2,3,4,10,11,12)
  by (intro conjI)

end
